theory Spec2Isabelle
  imports Complex_Main "HOL-Library.Sublist" "HOL-Library.List_Lexorder" "HOL-Library.Char_ord"
begin

section \<open>Text primitives of Python used by the detectors\<close>

text \<open>
  Texts are modelled as \<open>string\<close>, one \<open>char\<close> per code point, for texts in the ASCII
  range. \<open>lower\<close> is \<^verbatim>\<open>str.lower()\<close>, \<open>str_contains s sub\<close> is \<^verbatim>\<open>sub in s\<close> and
  \<open>split_ws\<close> is \<^verbatim>\<open>str.split()\<close> with no argument: it cuts at runs of whitespace and
  never returns an empty token.
\<close>

definition lower_char :: "char \<Rightarrow> char" where
  "lower_char c =
     (case map_of (zip ''ABCDEFGHIJKLMNOPQRSTUVWXYZ'' ''abcdefghijklmnopqrstuvwxyz'') c of
        None \<Rightarrow> c
      | Some d \<Rightarrow> d)"

definition lower :: "string \<Rightarrow> string" where
  "lower s = map lower_char s"

fun str_contains :: "string \<Rightarrow> string \<Rightarrow> bool" where
  "str_contains [] sub = (sub = [])"
| "str_contains (c # cs) sub = (prefix sub (c # cs) \<or> str_contains cs sub)"

definition is_space :: "char \<Rightarrow> bool" where
  "is_space c = (c \<in> set [CHR 0x09, CHR 0x0A, CHR 0x0B, CHR 0x0C, CHR 0x0D,
                             CHR 0x1C, CHR 0x1D, CHR 0x1E, CHR 0x1F, CHR 0x20])"

fun split_from :: "string \<Rightarrow> string \<Rightarrow> string list" where
  "split_from cur [] = (if cur = [] then [] else [cur])"
| "split_from cur (c # cs) =
     (if is_space c
      then (if cur = [] then split_from [] cs else cur # split_from [] cs)
      else split_from (cur @ [c]) cs)"

definition split_ws :: "string \<Rightarrow> string list" where
  "split_ws s = split_from [] s"

section \<open>Floating-point arithmetic of Python\<close>

text \<open>
  A Python \<^verbatim>\<open>float\<close> is an IEEE binary64 number, here the real number it stands
  for. \<open>round_double x\<close> is the double nearest to \<open>x\<close>, ties going to the even
  mantissa; the spacing of the doubles around \<open>x\<close> is \<open>2 ^ (e - 52)\<close> for the binary
  exponent \<open>e\<close> of \<open>x\<close>, which is taken as -1022 at least (the subnormal numbers). A
  result beyond the largest double, which Python turns into \<^verbatim>\<open>inf\<close> or an
  \<^verbatim>\<open>OverflowError\<close>, is not modelled.

  Every operation on floats returns the rounded exact result: \<open>fadd\<close>, \<open>fsub\<close>,
  \<open>fmul\<close> and \<open>fdiv\<close> are \<^verbatim>\<open>+ - * /\<close> on two floats, \<open>float_lit\<close> is a literal
  such as \<^verbatim>\<open>0.4\<close>, \<open>float_of_int\<close> is the conversion of an \<^verbatim>\<open>int\<close> operand, and
  \<open>int_truediv\<close> is \<^verbatim>\<open>/\<close> on two ints, which Python rounds once.
\<close>

definition round_half_even :: "real \<Rightarrow> int" where
  "round_half_even x =
     (let f = \<lfloor>x\<rfloor>; d = x - of_int f
      in if d < 1 / 2 then f
         else if d > 1 / 2 then f + 1
         else if even f then f else f + 1)"

definition round_double :: "real \<Rightarrow> real" where
  "round_double x =
     (if x = 0 then 0
      else
        (let e = max \<lfloor>log 2 \<bar>x\<bar>\<rfloor> (- 1022);
             ulp = 2 powr of_int (e - 52)
         in of_int (round_half_even (x / ulp)) * ulp))"

definition float_lit :: "real \<Rightarrow> real" where
  "float_lit x = round_double x"

definition float_of_int :: "int \<Rightarrow> real" where
  "float_of_int n = round_double (of_int n)"

definition int_truediv :: "int \<Rightarrow> int \<Rightarrow> real" where
  "int_truediv a b = round_double (of_int a / of_int b)"

definition fadd :: "real \<Rightarrow> real \<Rightarrow> real" where
  "fadd a b = round_double (a + b)"


definition fmul :: "real \<Rightarrow> real \<Rightarrow> real" where
  "fmul a b = round_double (a * b)"


section \<open>The rule store of campaign\_detector.py (class KeywordDatabase)\<close>

text \<open>
  The three SQLite tables as lists of rows in rowid order. The columns \<open>created_at\<close> are
  left out: nothing reads them. \<open>last_detected\<close> is \<open>None\<close> for SQL NULL; the clock
  value written by \<^verbatim>\<open>CURRENT_TIMESTAMP\<close> is the field \<open>clock\<close> of the store.
  Severities are \<open>real\<close>: the Python numbers are idealised as exact reals.
\<close>

record keyword_row =
  kw_id :: nat
  kw_keyword :: string
  kw_category :: string
  kw_severity :: real
  kw_detection_count :: nat
  kw_last_detected :: "nat option"
  kw_is_active :: bool

record hashtag_row =
  ht_id :: nat
  ht_hashtag :: string
  ht_category :: string
  ht_severity :: real
  ht_detection_count :: nat
  ht_last_detected :: "nat option"

record pattern_row =
  pt_id :: nat
  pt_pattern :: string
  pt_description :: string
  pt_severity :: real
  pt_detection_count :: nat

record keyword_db =
  db_keywords :: "keyword_row list"
  db_hashtags :: "hashtag_row list"
  db_patterns :: "pattern_row list"
  kw_seq :: nat
  clock :: nat

text \<open>A row of a result set: \<^verbatim>\<open>(text, category or description, severity)\<close>.\<close>

type_synonym rule = "string \<times> string \<times> real"

text \<open>
  \<^verbatim>\<open>INSERT OR REPLACE INTO keywords (keyword, category, severity)\<close>: every row whose
  UNIQUE column \<open>keyword\<close> conflicts is deleted, and the new row is appended under the
  next AUTOINCREMENT id with the column defaults (count 0, no detection time, active).
\<close>

definition add_keyword :: "keyword_db \<Rightarrow> string \<Rightarrow> string \<Rightarrow> real \<Rightarrow> keyword_db" where
  "add_keyword db keyword category severity =
     db\<lparr>db_keywords :=
          filter (\<lambda>r. kw_keyword r \<noteq> lower keyword) (db_keywords db) @
          [\<lparr>kw_id = Suc (kw_seq db), kw_keyword = lower keyword, kw_category = category,
            kw_severity = severity, kw_detection_count = 0, kw_last_detected = None,
            kw_is_active = True\<rparr>],
        kw_seq := Suc (kw_seq db)\<rparr>"

text \<open>
  The three \<^verbatim>\<open>SELECT ... ORDER BY severity DESC\<close>. SQL leaves the order of rows of
  equal severity open; the model keeps them in rowid order.
\<close>

definition get_active_keywords :: "keyword_db \<Rightarrow> rule list" where
  "get_active_keywords db =
     map (\<lambda>r. (kw_keyword r, kw_category r, kw_severity r))
       (sort_key (\<lambda>r. - kw_severity r) (filter kw_is_active (db_keywords db)))"

definition get_hashtags :: "keyword_db \<Rightarrow> rule list" where
  "get_hashtags db =
     map (\<lambda>r. (ht_hashtag r, ht_category r, ht_severity r))
       (sort_key (\<lambda>r. - ht_severity r) (db_hashtags db))"

definition get_patterns :: "keyword_db \<Rightarrow> rule list" where
  "get_patterns db =
     map (\<lambda>r. (pt_pattern r, pt_description r, pt_severity r))
       (sort_key (\<lambda>r. - pt_severity r) (db_patterns db))"

text \<open>
  \<^verbatim>\<open>UPDATE {table} SET detection_count = detection_count + 1, last_detected = ...
  WHERE {column} = keyword.lower()\<close>: the comparison is SQLite's binary string equality
  between the stored text and the lower-cased argument.
\<close>

definition update_detection_count :: "keyword_db \<Rightarrow> string \<Rightarrow> string \<Rightarrow> keyword_db" where
  "update_detection_count db keyword keyword_type =
     (if keyword_type = ''keyword''
      then db\<lparr>db_keywords :=
             map (\<lambda>r. if kw_keyword r = lower keyword
                       then r\<lparr>kw_detection_count := kw_detection_count r + 1,
                              kw_last_detected := Some (clock db)\<rparr>
                       else r) (db_keywords db)\<rparr>
      else db\<lparr>db_hashtags :=
             map (\<lambda>r. if ht_hashtag r = lower keyword
                       then r\<lparr>ht_detection_count := ht_detection_count r + 1,
                              ht_last_detected := Some (clock db)\<rparr>
                       else r) (db_hashtags db)\<rparr>)"

section \<open>Scoring one text (class NLPProcessor)\<close>

text \<open>
  The processor holds the result sets read when it was built. The regular-expression
  engine and the sentiment library are not code of the repository; they are the
  parameters \<open>findall\<close> (\<^verbatim>\<open>re.compile(p, re.IGNORECASE).findall(text)\<close>) and
  \<open>polarity\<close> (\<^verbatim>\<open>TextBlob(text).sentiment.polarity\<close>, \<open>None\<close> when it raises).
\<close>

record nlp_processor =
  nlp_keywords :: "rule list"
  nlp_hashtags :: "rule list"
  nlp_patterns :: "rule list"

definition load_nlp_resources :: "keyword_db \<Rightarrow> nlp_processor" where
  "load_nlp_resources db =
     \<lparr>nlp_keywords = get_active_keywords db,
      nlp_hashtags = get_hashtags db,
      nlp_patterns = get_patterns db\<rparr>"

text \<open>
  The feature dictionary. \<open>hashtags_found\<close> and \<open>mentions_found\<close> are the results of
  \<^verbatim>\<open>re.findall\<close> with the two fixed expressions; \<open>urls_found\<close> is left out, no
  function of the detectors reads it.
\<close>

record features =
  matched_keywords :: "rule list"
  matched_hashtags :: "rule list"
  matched_patterns :: "(string \<times> string list \<times> real) list"
  sentiment_score :: real
  threat_level :: string
  total_severity :: real
  hashtags_found :: "string list"
  mentions_found :: "string list"

text \<open>The loops over keywords and hashtags: the state is (matches, total so far, store).\<close>

fun match_keywords ::
  "string \<Rightarrow> rule list \<Rightarrow> rule list \<times> real \<times> keyword_db \<Rightarrow> rule list \<times> real \<times> keyword_db" where
  "match_keywords content_lower [] st = st"
| "match_keywords content_lower ((keyword, category, severity) # rest) (ms, tot, db) =
     (if str_contains content_lower (lower keyword)
      then match_keywords content_lower rest
             (ms @ [(keyword, category, severity)], tot + severity,
              update_detection_count db keyword ''keyword'')
      else match_keywords content_lower rest (ms, tot, db))"

fun match_hashtags ::
  "string \<Rightarrow> rule list \<Rightarrow> rule list \<times> real \<times> keyword_db \<Rightarrow> rule list \<times> real \<times> keyword_db" where
  "match_hashtags content_lower [] st = st"
| "match_hashtags content_lower ((hashtag, category, severity) # rest) (ms, tot, db) =
     (if str_contains content_lower (lower hashtag)
      then match_hashtags content_lower rest
             (ms @ [(hashtag, category, severity)], tot + severity,
              update_detection_count db hashtag ''hashtag'')
      else match_hashtags content_lower rest (ms, tot, db))"

text \<open>The loop over the compiled patterns; it does not touch the store.\<close>

fun match_patterns ::
  "(string \<Rightarrow> string \<Rightarrow> string list) \<Rightarrow> string \<Rightarrow> rule list \<Rightarrow>
   (string \<times> string list \<times> real) list \<times> real \<Rightarrow> (string \<times> string list \<times> real) list \<times> real" where
  "match_patterns findall content [] st = st"
| "match_patterns findall content ((pattern, description, severity) # rest) (ms, tot) =
     (if findall pattern content \<noteq> []
      then match_patterns findall content rest
             (ms @ [(description, findall pattern content, severity)], tot + severity)
      else match_patterns findall content rest (ms, tot))"

definition threat_of :: "real \<Rightarrow> string" where
  "threat_of sev =
     (if sev \<ge> 25 then ''CRITICAL''
      else if sev \<ge> 15 then ''HIGH''
      else if sev \<ge> 8 then ''MEDIUM''
      else ''LOW'')"

definition extract_features ::
  "(string \<Rightarrow> string \<Rightarrow> string list) \<Rightarrow> (string \<Rightarrow> real option) \<Rightarrow>
   nlp_processor \<Rightarrow> keyword_db \<Rightarrow> string \<Rightarrow> features \<times> keyword_db" where
  "extract_features findall polarity nlp db content =
     (let content_lower = lower content;
          (mk, t1, db1) = match_keywords content_lower (nlp_keywords nlp) ([], 0, db);
          (mh, t2, db2) = match_hashtags content_lower (nlp_hashtags nlp) ([], t1, db1);
          (mp, t3) = match_patterns findall content (nlp_patterns nlp) ([], t2)
      in (\<lparr>matched_keywords = mk,
           matched_hashtags = mh,
           matched_patterns = mp,
           sentiment_score = (case polarity content of None \<Rightarrow> 0 | Some p \<Rightarrow> p),
           threat_level = threat_of t3,
           total_severity = t3,
           hashtags_found = findall (''#'' @ [CHR 0x5C] @ ''w+'') content,
           mentions_found = findall (''@'' @ [CHR 0x5C] @ ''w+'') content\<rparr>,
          db2))"

definition is_anti_india_content ::
  "(string \<Rightarrow> string \<Rightarrow> string list) \<Rightarrow> (string \<Rightarrow> real option) \<Rightarrow>
   nlp_processor \<Rightarrow> keyword_db \<Rightarrow> string \<Rightarrow> (bool \<times> features) \<times> keyword_db" where
  "is_anti_india_content findall polarity nlp db content =
     (let (features, db') = extract_features findall polarity nlp db content;
          is_anti_india =
            (length (matched_keywords features) > 0 \<or>
             length (matched_hashtags features) > 0 \<or>
             length (matched_patterns features) > 0 \<or>
             (sentiment_score features < - 0.3 \<and> total_severity features > 3))
      in ((is_anti_india, features), db'))"

section \<open>Collected items (dataclass CampaignContent)\<close>

text \<open>
  A \<^verbatim>\<open>datetime\<close>: the calendar date as a day number and the time of day in its four
  fields, so that \<^verbatim>\<open>replace(hour=0, ...)\<close> is a record update. \<open>dt_micros\<close> is the
  position on the time line in microseconds; it orders timestamps and gives the
  length of a \<^verbatim>\<open>timedelta\<close>.
\<close>

record datetime =
  dt_day :: int
  dt_hour :: nat
  dt_minute :: nat
  dt_second :: nat
  dt_microsecond :: nat

definition dt_micros :: "datetime \<Rightarrow> int" where
  "dt_micros d =
     (((dt_day d * 24 + int (dt_hour d)) * 60 + int (dt_minute d)) * 60 + int (dt_second d))
       * 1000000 + int (dt_microsecond d)"

text \<open>
  The engagement dictionary is an association list (metric name, count) with distinct
  keys. \<open>engagement_get e k d\<close> is \<^verbatim>\<open>e.get(k, d)\<close>.
\<close>

record content =
  c_id :: string
  c_platform :: string
  c_content :: string
  c_author :: string
  c_timestamp :: datetime
  c_engagement :: "(string \<times> int) list"
  c_hashtags :: "string list"
  c_mentions :: "string list"
  c_url :: string
  c_sentiment_score :: real
  c_threat_level :: string
  c_keywords_matched :: "string list"

definition engagement_get :: "(string \<times> int) list \<Rightarrow> string \<Rightarrow> int \<Rightarrow> int" where
  "engagement_get e k d = (case map_of e k of None \<Rightarrow> d | Some v \<Rightarrow> v)"

definition engagement_sum :: "(string \<times> int) list \<Rightarrow> int" where
  "engagement_sum e = sum_list (map snd e)"

section \<open>Engagement and influencers (class EngagementAnalyzer of campaign\_detector.py)\<close>

record engagement_analysis =
  ea_total_engagement :: int
  ea_engagement_velocity :: real
  ea_is_viral :: bool
  ea_is_suspicious :: bool
  ea_bot_score :: real
  ea_amplification_factor :: real
  ea_engagement_ratio :: "(string \<times> real) list"

definition analyze_engagement :: "content \<Rightarrow> engagement_analysis" where
  "analyze_engagement c =
     (let engagement = c_engagement c;
          tot = max (engagement_sum engagement) 1;
          likes_to_shares =
            int_truediv (engagement_get engagement ''likes'' 0)
              (max (engagement_get engagement ''shares'' 1) 1);
          comments_to_likes =
            int_truediv (engagement_get engagement ''comments'' 0)
              (max (engagement_get engagement ''likes'' 1) 1);
          bot_score1 = (if likes_to_shares > 20 then fadd 0 (float_lit 0.3) else 0);
          bot_score =
            (if comments_to_likes < float_lit 0.01 \<and> engagement_get engagement ''likes'' 0 > 100
             then fadd bot_score1 (float_lit 0.2) else bot_score1)
      in \<lparr>ea_total_engagement = engagement_sum engagement,
          ea_engagement_velocity = 0,
          ea_is_viral =
            (engagement_get engagement ''likes'' 0 > 1000 \<or>
             engagement_get engagement ''shares'' 0 > 500 \<or>
             engagement_get engagement ''comments'' 0 > 200),
          ea_is_suspicious = (bot_score > float_lit 0.3),
          ea_bot_score = bot_score,
          ea_amplification_factor = 1,
          ea_engagement_ratio =
            map (\<lambda>(metric, count). (metric, int_truediv count tot)) engagement\<rparr>)"

text \<open>
  The per-author accumulator. The set of platforms is kept as a duplicate-free list:
  the source only adds to it and takes its size.
\<close>

record metrics =
  m_post_count :: nat
  m_total_engagement :: int
  m_avg_engagement :: real
  m_viral_posts :: nat
  m_threat_score :: nat
  m_platforms :: "string list"
  m_content_samples :: "string list"

definition default_metrics :: metrics where
  "default_metrics =
     \<lparr>m_post_count = 0, m_total_engagement = 0, m_avg_engagement = 0, m_viral_posts = 0,
      m_threat_score = 0, m_platforms = [], m_content_samples = []\<rparr>"

text \<open>The body of the first loop of \<^verbatim>\<open>identify_influencers\<close>, on the author's entry.\<close>

definition update_metrics :: "content \<Rightarrow> metrics \<Rightarrow> metrics" where
  "update_metrics c m =
     m\<lparr>m_post_count := m_post_count m + 1,
       m_total_engagement := m_total_engagement m + engagement_sum (c_engagement c),
       m_platforms := List.insert (c_platform c) (m_platforms m),
       m_content_samples := m_content_samples m @ [take 100 (c_content c)],
       m_threat_score :=
         m_threat_score m +
         (if c_threat_level c = ''CRITICAL'' then 10
          else if c_threat_level c = ''HIGH'' then 5
          else if c_threat_level c = ''MEDIUM'' then 2
          else 0),
       m_viral_posts :=
         m_viral_posts m + (if ea_is_viral (analyze_engagement c) then 1 else 0)\<rparr>"

text \<open>
  \<^verbatim>\<open>author_metrics[author]\<close> on the \<^verbatim>\<open>defaultdict\<close>: the dictionary is an association
  list in insertion order; a new author is appended with the default entry.
\<close>

fun update_author :: "string \<Rightarrow> (metrics \<Rightarrow> metrics) \<Rightarrow> (string \<times> metrics) list \<Rightarrow> (string \<times> metrics) list" where
  "update_author a f [] = [(a, f default_metrics)]"
| "update_author a f ((b, m) # rest) =
     (if a = b then (b, f m) # rest else (b, m) # update_author a f rest)"

definition collect_author_metrics :: "content list \<Rightarrow> (string \<times> metrics) list" where
  "collect_author_metrics contents =
     foldl (\<lambda>author_metrics c. update_author (c_author c) (update_metrics c) author_metrics)
       [] contents"

record influencer =
  inf_author :: string
  inf_influence_score :: real
  inf_metrics :: metrics

text \<open>
  The influence score, \<^verbatim>\<open>total_engagement * 0.4 + viral_posts * 100 +
  threat_score * 10 + len(platforms) * 50\<close>: the first product is a float, the other
  three are ints, and each \<^verbatim>\<open>+\<close>, from left to right, adds an int to a float.
\<close>

definition influence_score_of :: "metrics \<Rightarrow> real" where
  "influence_score_of m =
     fadd
       (fadd
          (fadd (fmul (float_of_int (m_total_engagement m)) (float_lit 0.4))
                (float_of_int (int (m_viral_posts m) * 100)))
          (float_of_int (int (m_threat_score m) * 10)))
       (float_of_int (int (length (m_platforms m)) * 50))"

definition make_influencer :: "string \<times> metrics \<Rightarrow> influencer" where
  "make_influencer am =
     (let author = fst am;
          m = (snd am)\<lparr>m_avg_engagement :=
                 int_truediv (m_total_engagement (snd am)) (int (m_post_count (snd am)))\<rparr>
      in \<lparr>inf_author = author, inf_influence_score = influence_score_of m, inf_metrics = m\<rparr>)"

text \<open>
  \<^verbatim>\<open>sorted(influencers, key=..., reverse=True)\<close>: Python's sort is stable, also with
  \<^verbatim>\<open>reverse=True\<close>, so entries of equal score stay in dictionary order.
\<close>

definition identify_influencers :: "content list \<Rightarrow> influencer list" where
  "identify_influencers contents =
     sort_key (\<lambda>x. - inf_influence_score x)
       (map make_influencer (collect_author_metrics contents))"

section \<open>Coordination detection (class CoordinatedCampaignDetector)\<close>

text \<open>The exceptions the helpers can raise: a division by zero, \<^verbatim>\<open>max\<close> of an empty list.\<close>

datatype py_error = ZeroDivisionError | ValueError

text \<open>
  \<^verbatim>\<open>_calculate_content_similarity\<close>: Jaccard similarity of the two sets of lower-cased
  whitespace tokens.
\<close>

definition calculate_content_similarity :: "string \<Rightarrow> string \<Rightarrow> real" where
  "calculate_content_similarity content1 content2 =
     (let words1 = set (split_ws (lower content1));
          words2 = set (split_ws (lower content2));
          intersection = card (words1 \<inter> words2);
          union = card (words1 \<union> words2)
      in if union > 0 then real intersection / real union else 0)"

text \<open>
  \<^verbatim>\<open>_calculate_time_span\<close>; the result is the length of the \<^verbatim>\<open>timedelta\<close> in
  microseconds instead of its printed form.
\<close>

fun calculate_time_span :: "content list \<Rightarrow> py_error + int" where
  "calculate_time_span [] = Inl ValueError"
| "calculate_time_span (c # cs) =
     (let first = dt_micros (c_timestamp c);
          others = map (\<lambda>x. dt_micros (c_timestamp x)) cs
      in Inr (fold max others first - fold min others first))"

definition threat_scores_get :: "string \<Rightarrow> nat" where
  "threat_scores_get level =
     (case map_of [(''LOW'', 1), (''MEDIUM'', 2), (''HIGH'', 3), (''CRITICAL'', 4)] level of
        None \<Rightarrow> 1
      | Some v \<Rightarrow> v)"

definition calculate_campaign_threat_level :: "content list \<Rightarrow> py_error + string" where
  "calculate_campaign_threat_level contents =
     (if length contents = 0 then Inl ZeroDivisionError
      else
        (let avg_score =
               real (sum_list (map (\<lambda>c. threat_scores_get (c_threat_level c)) contents)) /
               real (length contents)
         in Inr (if avg_score \<ge> 3.5 then ''CRITICAL''
                 else if avg_score \<ge> 2.5 then ''HIGH''
                 else if avg_score \<ge> 1.5 then ''MEDIUM''
                 else ''LOW'')))"

text \<open>
  \<^verbatim>\<open>d[k].append(v)\<close> on a \<^verbatim>\<open>defaultdict(list)\<close>, the dictionary being an association
  list in insertion order.
\<close>

fun group_append :: "'k \<Rightarrow> 'v \<Rightarrow> ('k \<times> 'v list) list \<Rightarrow> ('k \<times> 'v list) list" where
  "group_append k v [] = [(k, [v])]"
| "group_append k v ((k', vs) # rest) =
     (if k = k' then (k', vs @ [v]) # rest else (k', vs) # group_append k v rest)"

text \<open>
  The reported clusters. \<^verbatim>\<open>list(set(...))\<close> of authors and platforms is the list without
  repetitions; Python leaves its order open, and the source only takes its length.
\<close>

record hashtag_campaign =
  hc_hashtag :: string
  hc_accounts_involved :: "string list"
  hc_post_count :: nat
  hc_time_span :: int
  hc_platforms :: "string list"
  hc_threat_level :: string

text \<open>
  \<open>sc_member_ids\<close> is not a key of the source's dictionary: it keeps the positions of
  the items of \<^verbatim>\<open>similar_contents\<close>, from which every key is computed, so that
  membership of an item in a cluster can be stated.
\<close>

record similarity_campaign =
  sc_similar_posts :: nat
  sc_accounts_involved :: "string list"
  sc_content_template :: string
  sc_platforms :: "string list"
  sc_threat_level :: string
  sc_member_ids :: "nat list"

record timing_campaign =
  tc_time_window :: datetime
  tc_posts_in_window :: nat
  tc_accounts_involved :: "string list"
  tc_platforms :: "string list"
  tc_threat_level :: string

datatype campaign =
  Hashtag_coordination hashtag_campaign
| Content_similarity similarity_campaign
| Timing_coordination timing_campaign

subsection \<open>Hashtag synchrony\<close>

definition hashtag_usage :: "content list \<Rightarrow> (string \<times> content list) list" where
  "hashtag_usage contents =
     foldl (\<lambda>usage c. foldl (\<lambda>u hashtag. group_append (lower hashtag) c u) usage (c_hashtags c))
       [] contents"

fun hashtag_campaigns :: "(string \<times> content list) list \<Rightarrow> py_error + hashtag_campaign list" where
  "hashtag_campaigns [] = Inr []"
| "hashtag_campaigns ((hashtag, hashtag_contents) # rest) =
     (if length hashtag_contents \<ge> 5 \<and> length (remdups (map c_author hashtag_contents)) \<ge> 3
      then
        (case calculate_time_span hashtag_contents of
           Inl e \<Rightarrow> Inl e
         | Inr time_span \<Rightarrow>
        (case calculate_campaign_threat_level hashtag_contents of
           Inl e \<Rightarrow> Inl e
         | Inr level \<Rightarrow>
        (case hashtag_campaigns rest of
           Inl e \<Rightarrow> Inl e
         | Inr found_later \<Rightarrow>
             Inr (\<lparr>hc_hashtag = hashtag,
                   hc_accounts_involved = remdups (map c_author hashtag_contents),
                   hc_post_count = length hashtag_contents,
                   hc_time_span = time_span,
                   hc_platforms = remdups (map c_platform hashtag_contents),
                   hc_threat_level = level\<rparr> # found_later))))
      else hashtag_campaigns rest)"

definition detect_hashtag_coordination :: "content list \<Rightarrow> py_error + hashtag_campaign list" where
  "detect_hashtag_coordination contents = hashtag_campaigns (hashtag_usage contents)"

subsection \<open>Content similarity\<close>

text \<open>
  The inner loop over \<^verbatim>\<open>enumerate(contents[i+1:], i+1)\<close>; the state is the set
  \<open>processed\<close> and the list \<open>similar_contents\<close>, each item with its position.
\<close>

fun absorb_similar ::
  "content \<Rightarrow> (nat \<times> content) list \<Rightarrow> nat set \<times> (nat \<times> content) list \<Rightarrow>
   nat set \<times> (nat \<times> content) list" where
  "absorb_similar content1 [] st = st"
| "absorb_similar content1 ((j, content2) # rest) (processed, similar_contents) =
     (if j \<in> processed then absorb_similar content1 rest (processed, similar_contents)
      else if calculate_content_similarity (c_content content1) (c_content content2) > 0.8
      then absorb_similar content1 rest
             (insert j processed, similar_contents @ [(j, content2)])
      else absorb_similar content1 rest (processed, similar_contents))"

text \<open>The outer loop over \<^verbatim>\<open>enumerate(contents)\<close>; the state is (processed, campaigns).\<close>

fun similarity_loop ::
  "content list \<Rightarrow> (nat \<times> content) list \<Rightarrow> nat set \<times> similarity_campaign list \<Rightarrow>
   py_error + (nat set \<times> similarity_campaign list)" where
  "similarity_loop contents [] st = Inr st"
| "similarity_loop contents ((i, content1) # rest) (processed, campaigns) =
     (if i \<in> processed then similarity_loop contents rest (processed, campaigns)
      else
        (let (processed1, similar_contents) =
               absorb_similar content1 (List.enumerate (i + 1) (drop (i + 1) contents))
                 (processed, [(i, content1)])
         in if length similar_contents \<ge> 3 \<and>
               length (remdups (map (\<lambda>x. c_author (snd x)) similar_contents)) \<ge> 2
            then
              (case calculate_campaign_threat_level (map snd similar_contents) of
                 Inl e \<Rightarrow> Inl e
               | Inr level \<Rightarrow>
                   similarity_loop contents rest
                     (insert i processed1,
                      campaigns @
                      [\<lparr>sc_similar_posts = length similar_contents,
                        sc_accounts_involved = remdups (map (\<lambda>x. c_author (snd x)) similar_contents),
                        sc_content_template = take 200 (c_content content1),
                        sc_platforms = remdups (map (\<lambda>x. c_platform (snd x)) similar_contents),
                        sc_threat_level = level,
                        sc_member_ids = map fst similar_contents\<rparr>]))
            else similarity_loop contents rest (processed1, campaigns)))"

definition detect_content_similarity :: "content list \<Rightarrow> py_error + similarity_campaign list" where
  "detect_content_similarity contents =
     (case similarity_loop contents (List.enumerate 0 contents) ({}, []) of
        Inl e \<Rightarrow> Inl e
      | Inr st \<Rightarrow> Inr (snd st))"

subsection \<open>Posting-time synchrony\<close>

definition hour_groups :: "content list \<Rightarrow> (datetime \<times> content list) list" where
  "hour_groups contents =
     foldl (\<lambda>groups c.
              group_append ((c_timestamp c)\<lparr>dt_minute := 0, dt_second := 0, dt_microsecond := 0\<rparr>)
                c groups)
       [] contents"

fun timing_campaigns :: "(datetime \<times> content list) list \<Rightarrow> py_error + timing_campaign list" where
  "timing_campaigns [] = Inr []"
| "timing_campaigns ((hour, hour_contents) # rest) =
     (if length hour_contents \<ge> 5 \<and> length (remdups (map c_author hour_contents)) \<ge> 3
      then
        (case calculate_campaign_threat_level hour_contents of
           Inl e \<Rightarrow> Inl e
         | Inr level \<Rightarrow>
        (case timing_campaigns rest of
           Inl e \<Rightarrow> Inl e
         | Inr found_later \<Rightarrow>
             Inr (\<lparr>tc_time_window = hour,
                   tc_posts_in_window = length hour_contents,
                   tc_accounts_involved = remdups (map c_author hour_contents),
                   tc_platforms = remdups (map c_platform hour_contents),
                   tc_threat_level = level\<rparr> # found_later)))
      else timing_campaigns rest)"

definition detect_timing_coordination :: "content list \<Rightarrow> py_error + timing_campaign list" where
  "detect_timing_coordination contents = timing_campaigns (hour_groups contents)"

subsection \<open>The driver\<close>

text \<open>
  \<^verbatim>\<open>time_key = content.timestamp.replace(hour=0, minute=0, second=0)\<close>: the microsecond
  field is not reset.
\<close>

definition time_grouped :: "content list \<Rightarrow> (datetime \<times> content list) list" where
  "time_grouped contents =
     foldl (\<lambda>groups c.
              group_append ((c_timestamp c)\<lparr>dt_hour := 0, dt_minute := 0, dt_second := 0\<rparr>)
                c groups)
       [] contents"

fun campaigns_of_groups :: "(datetime \<times> content list) list \<Rightarrow> py_error + campaign list" where
  "campaigns_of_groups [] = Inr []"
| "campaigns_of_groups ((time_key, time_contents) # rest) =
     (if length time_contents < 3 then campaigns_of_groups rest
      else
        (case detect_hashtag_coordination time_contents of
           Inl e \<Rightarrow> Inl e
         | Inr hashtag_found \<Rightarrow>
        (case detect_content_similarity time_contents of
           Inl e \<Rightarrow> Inl e
         | Inr similarity_found \<Rightarrow>
        (case detect_timing_coordination time_contents of
           Inl e \<Rightarrow> Inl e
         | Inr timing_found \<Rightarrow>
        (case campaigns_of_groups rest of
           Inl e \<Rightarrow> Inl e
         | Inr found_later \<Rightarrow>
             Inr (map Hashtag_coordination hashtag_found @
                  map Content_similarity similarity_found @
                  map Timing_coordination timing_found @ found_later))))))"

definition detect_coordinated_campaigns :: "content list \<Rightarrow> py_error + campaign list" where
  "detect_coordinated_campaigns contents = campaigns_of_groups (time_grouped contents)"

section \<open>The rule store of enhanced\_keyword\_database.py\<close>

text \<open>
  The table \<open>keywords\<close> of the second store, with its UNIQUE column \<open>keyword\<close> and its
  AUTOINCREMENT counter. A plain \<^verbatim>\<open>INSERT\<close> of a text that is already stored raises
  \<^verbatim>\<open>sqlite3.IntegrityError\<close> and changes nothing.
\<close>

record ekeyword_row =
  ek_id :: nat
  ek_keyword :: string
  ek_category :: string
  ek_weight :: real
  ek_language :: string
  ek_detection_count :: nat
  ek_last_detected :: "nat option"
  ek_is_active :: bool

record enhanced_db =
  edb_keywords :: "ekeyword_row list"
  edb_seq :: nat

datatype sql_error = IntegrityError

definition insert_keyword ::
  "enhanced_db \<Rightarrow> string \<Rightarrow> string \<Rightarrow> real \<Rightarrow> string \<Rightarrow> sql_error + enhanced_db" where
  "insert_keyword db keyword category weight language =
     (if keyword \<in> set (map ek_keyword (edb_keywords db)) then Inl IntegrityError
      else Inr (db\<lparr>edb_keywords :=
                    edb_keywords db @
                    [\<lparr>ek_id = Suc (edb_seq db), ek_keyword = keyword, ek_category = category,
                      ek_weight = weight, ek_language = language, ek_detection_count = 0,
                      ek_last_detected = None, ek_is_active = True\<rparr>],
                  edb_seq := Suc (edb_seq db)\<rparr>))"

text \<open>
  \<^verbatim>\<open>add_keyword\<close> of the second store: \<^verbatim>\<open>try: INSERT ...; return True
  except sqlite3.IntegrityError: return False\<close>. The result is the returned value and
  the store afterwards.
\<close>

definition enhanced_add_keyword ::
  "enhanced_db \<Rightarrow> string \<Rightarrow> string \<Rightarrow> real \<Rightarrow> string \<Rightarrow> bool \<times> enhanced_db" where
  "enhanced_add_keyword db keyword category weight language =
     (case insert_keyword db (lower keyword) category weight language of
        Inr db' \<Rightarrow> (True, db')
      | Inl IntegrityError \<Rightarrow> (False, db))"

section \<open>Trending anomalies (engagement\_analyzer.py, detect\_trending\_anomalies)\<close>













section \<open>Example inputs and notions used in the statements\<close>

text \<open>
  A stand-in for the regular-expression engine, used to run the examples: for a pattern
  without metacharacters that does not overlap itself, \<^verbatim>\<open>findall\<close> with
  \<^verbatim>\<open>re.IGNORECASE\<close> returns the occurrences of the pattern in the text, compared
  without regard to case.
\<close>

fun literal_findall :: "string \<Rightarrow> string \<Rightarrow> string list" where
  "literal_findall p [] = []"
| "literal_findall p (c # cs) =
     (if prefix (lower p) (lower (c # cs))
      then take (length p) (c # cs) # literal_findall p cs
      else literal_findall p cs)"

text \<open>The rule snapshot and the text of the worked example of the specification.\<close>

definition example_nlp :: nlp_processor where
  "example_nlp =
     \<lparr>nlp_keywords = [(''boycott india'', ''boycott_campaign'', 2.8)],
      nlp_hashtags = [(''#boycottindia'', ''boycott_campaign'', 2.5)],
      nlp_patterns = [(''hindu terrorism'', ''Religious hatred'', 9)]\<rparr>"

definition example_text :: string where
  "example_text = ''boycott India and Hindu terrorism now #BoycottIndia''"

definition neutral_text :: string where
  "neutral_text = ''India won the match''"

text \<open>
  A store holding some of the rows that \<^verbatim>\<open>load_initial_keywords\<close> inserts: the
  texts are stored as written in the source, with their capitals.
\<close>

definition initial_db :: keyword_db where
  "initial_db =
     \<lparr>db_keywords =
        [\<lparr>kw_id = 1, kw_keyword = ''anti India'', kw_category = ''direct_hate'',
          kw_severity = 9, kw_detection_count = 0, kw_last_detected = None,
          kw_is_active = True\<rparr>,
         \<lparr>kw_id = 2, kw_keyword = ''hate India'', kw_category = ''direct_hate'',
          kw_severity = 9, kw_detection_count = 0, kw_last_detected = None,
          kw_is_active = True\<rparr>],
      db_hashtags =
        [\<lparr>ht_id = 1, ht_hashtag = ''#AntiIndia'', ht_category = ''direct_hate'',
          ht_severity = 8, ht_detection_count = 0, ht_last_detected = None\<rparr>],
      db_patterns =
        [\<lparr>pt_id = 1, pt_pattern = ''Pakistan (will )?defeat India'',
          pt_description = ''Conflict incitement'', pt_severity = 6,
          pt_detection_count = 0\<rparr>],
      kw_seq = 2, clock = 100\<rparr>"

text \<open>Items for the examples: a posting time on one fixed day, and a post.\<close>

definition example_time :: "nat \<Rightarrow> nat \<Rightarrow> nat \<Rightarrow> datetime" where
  "example_time h m us =
     \<lparr>dt_day = 739000, dt_hour = h, dt_minute = m, dt_second = 0, dt_microsecond = us\<rparr>"

definition post :: "string \<Rightarrow> string \<Rightarrow> datetime \<Rightarrow> string list \<Rightarrow> string \<Rightarrow> string \<Rightarrow> content" where
  "post i a t hs txt level =
     \<lparr>c_id = i, c_platform = ''reddit'', c_content = txt, c_author = a, c_timestamp = t,
      c_engagement = [], c_hashtags = hs, c_mentions = [], c_url = [],
      c_sentiment_score = 0, c_threat_level = level, c_keywords_matched = []\<rparr>"

definition mixed_levels :: "content list" where
  "mixed_levels =
     [post ''1'' ''alice'' (example_time 10 0 0) [] ''a'' ''CRITICAL'',
      post ''2'' ''bob'' (example_time 10 1 0) [] ''b'' ''severe'',
      post ''3'' ''carol'' (example_time 10 2 0) [] ''c'' ''HIGH'']"

text \<open>
  \<open>as_low c\<close> is the item \<open>c\<close> with a threat level outside the four tiers replaced
  by LOW; it is used to state how such a level is counted.
\<close>

definition as_low :: "content \<Rightarrow> content" where
  "as_low c =
     (if c_threat_level c \<in> set [''LOW'', ''MEDIUM'', ''HIGH'', ''CRITICAL''] then c
      else c\<lparr>c_threat_level := ''LOW''\<rparr>)"

text \<open>
  A text that contains a keyword and a hashtag of \<open>initial_db\<close>, the same store after
  one \<^verbatim>\<open>add_keyword\<close>, and a store of enhanced\_keyword\_database.py with one row.
\<close>

definition initial_text :: string where
  "initial_text = ''anti India rally #AntiIndia''"

definition stored_db :: keyword_db where
  "stored_db = add_keyword initial_db ''Free Kashmir'' ''separatist'' 6"

definition enhanced_example :: enhanced_db where
  "enhanced_example =
     \<lparr>edb_keywords =
        [\<lparr>ek_id = 1, ek_keyword = ''boycott india'', ek_category = ''boycott_campaign'',
          ek_weight = 2.8, ek_language = ''en'', ek_detection_count = 3,
          ek_last_detected = Some 50, ek_is_active = True\<rparr>],
      edb_seq = 1\<rparr>"

text \<open>
  Two batches of one day. In \<open>four_posts\<close> three authors use the hashtag \<open>#x\<close> in four
  posts, one of which carries it twice. In \<open>five_posts\<close> three authors use it in five
  posts whose timestamps differ in their microseconds.
\<close>

definition four_posts :: "content list" where
  "four_posts =
     [post ''1'' ''alice'' (example_time 10 0 0) [''#x'', ''#X''] ''one'' ''LOW'',
      post ''2'' ''bob'' (example_time 10 5 0) [''#x''] ''two'' ''LOW'',
      post ''3'' ''carol'' (example_time 10 10 0) [''#x''] ''three'' ''LOW'',
      post ''4'' ''alice'' (example_time 10 15 0) [''#x''] ''four'' ''LOW'']"

definition five_posts :: "content list" where
  "five_posts =
     [post ''1'' ''alice'' (example_time 10 0 1) [''#x''] ''one'' ''LOW'',
      post ''2'' ''bob'' (example_time 10 5 2) [''#x''] ''two'' ''LOW'',
      post ''3'' ''carol'' (example_time 10 10 3) [''#x''] ''three'' ''LOW'',
      post ''4'' ''alice'' (example_time 10 15 4) [''#x''] ''four'' ''LOW'',
      post ''5'' ''bob'' (example_time 10 20 5) [''#x''] ''five'' ''LOW'']"

text \<open>
  A batch for the similarity detector: post 0 is close to post 2 only, and posts 1, 3
  and 4 have the same words, which are also close to those of post 2.
\<close>

definition similar_posts :: "content list" where
  "similar_posts =
     [post ''0'' ''alice'' (example_time 10 0 0) [] ''a b c d e'' ''LOW'',
      post ''1'' ''bob'' (example_time 10 1 0) [] ''a b c d e f g'' ''LOW'',
      post ''2'' ''carol'' (example_time 10 2 0) [] ''a b c d e f'' ''LOW'',
      post ''3'' ''alice'' (example_time 10 3 0) [] ''a b c d e f g'' ''LOW'',
      post ''4'' ''bob'' (example_time 10 4 0) [] ''A B C D E F G'' ''LOW'']"











text \<open>
  Notions used to state the property of the influencer ranking: the posts of one author,
  the threat points of a post, the four totals of an author's posts, the weighted sum of
  four totals in float arithmetic, the influence score as the specification words it,
  the authors in the order of their first post, and the accumulated entry of an author.
\<close>

definition author_posts :: "string \<Rightarrow> content list \<Rightarrow> content list" where
  "author_posts a contents = filter (\<lambda>c. c_author c = a) contents"

definition threat_points :: "content \<Rightarrow> nat" where
  "threat_points c =
     (if c_threat_level c = ''CRITICAL'' then 10
      else if c_threat_level c = ''HIGH'' then 5
      else if c_threat_level c = ''MEDIUM'' then 2
      else 0)"

definition author_totals :: "string \<Rightarrow> content list \<Rightarrow> int \<times> nat \<times> nat \<times> nat" where
  "author_totals a contents =
     (let posts = author_posts a contents;
          total_engagement = sum_list (map (\<lambda>c. engagement_sum (c_engagement c)) posts);
          viral_post_count = length (filter (\<lambda>c. ea_is_viral (analyze_engagement c)) posts);
          threat_score = sum_list (map threat_points posts);
          platform_count = card (set (map c_platform posts))
      in (total_engagement, viral_post_count, threat_score, platform_count))"

definition weighted_sum :: "int \<times> nat \<times> nat \<times> nat \<Rightarrow> real" where
  "weighted_sum totals =
     (case totals of
        (total_engagement, viral_post_count, threat_score, platform_count) \<Rightarrow>
          fadd
            (fadd
               (fadd (fmul (float_of_int total_engagement) (float_lit 0.4))
                     (float_of_int (int viral_post_count * 100)))
               (float_of_int (int threat_score * 10)))
            (float_of_int (int platform_count * 50)))"

definition spec_influence_score :: "string \<Rightarrow> content list \<Rightarrow> real" where
  "spec_influence_score a contents = weighted_sum (author_totals a contents)"

definition first_seen :: "content list \<Rightarrow> string list" where
  "first_seen contents = rev (remdups (rev (map c_author contents)))"

definition author_metrics_of :: "string \<Rightarrow> content list \<Rightarrow> metrics" where
  "author_metrics_of a contents =
     foldl (\<lambda>m c. update_metrics c m) default_metrics (author_posts a contents)"

text \<open>
  Three posts of three authors with equal scores, and the same batch followed by a
  CRITICAL post of the third author.
\<close>

definition tie_posts :: "content list" where
  "tie_posts =
     [post ''1'' ''b'' (example_time 10 0 0) [] ''one'' ''LOW'',
      post ''2'' ''a'' (example_time 10 1 0) [] ''two'' ''LOW'',
      post ''3'' ''c'' (example_time 10 2 0) [] ''three'' ''LOW'']"

definition ranked_posts :: "content list" where
  "ranked_posts = tie_posts @ [post ''4'' ''c'' (example_time 10 3 0) [] ''four'' ''CRITICAL'']"

text \<open>
  Two posts whose scores are equal in exact arithmetic, 100.8, and differ as floats: a
  HIGH post of \<open>a\<close> with 2 likes and a LOW post of \<open>b\<close> with 127 likes.
\<close>

definition liked_post :: "string \<Rightarrow> string \<Rightarrow> string \<Rightarrow> int \<Rightarrow> content" where
  "liked_post i a level likes =
     (post i a (example_time 10 0 0) [] ''text'' level)\<lparr>c_engagement := [(''likes'', likes)]\<rparr>"

definition rounding_posts :: "content list" where
  "rounding_posts = [liked_post ''1'' ''a'' ''HIGH'' 2, liked_post ''2'' ''b'' ''LOW'' 127]"

section \<open>Rounding to a double\<close>

lemma round_half_even_int: "round_half_even (of_int m) = m"
  by (simp add: round_half_even_def)

text \<open>An integer below \<open>2 ^ 53\<close> in absolute value is a double.\<close>

lemma round_double_int:
  assumes "\<bar>n\<bar> < 2 ^ 53"
  shows "round_double (of_int n) = of_int n"
proof (cases "n = 0")
  case True
  then show ?thesis by (simp add: round_double_def)
next
  case False
  define x :: real where "x = of_int n"
  have x1: "1 \<le> \<bar>x\<bar>"
  proof -
    have "1 \<le> \<bar>n\<bar>" using False by linarith
    then have "real_of_int 1 \<le> real_of_int \<bar>n\<bar>" by (simp only: of_int_le_iff)
    then show ?thesis by (simp add: x_def)
  qed
  have x2: "\<bar>x\<bar> < 2 ^ 53"
  proof -
    have "real_of_int \<bar>n\<bar> < real_of_int (2 ^ 53)" using assms by (simp only: of_int_less_iff)
    then show ?thesis by (simp add: x_def)
  qed
  define e0 where "e0 = \<lfloor>log 2 \<bar>x\<bar>\<rfloor>"
  have "0 \<le> log 2 \<bar>x\<bar>" using x1 by simp
  then have e_lo: "0 \<le> e0" by (simp add: e0_def)
  have "log 2 \<bar>x\<bar> < log 2 (2 ^ 53)"
    using x1 x2 by (subst log_less_cancel_iff) auto
  moreover have "log 2 ((2::real) ^ 53) = 53"
    using log_pow_cancel[of "2::real" 53] by simp
  ultimately have "log 2 \<bar>x\<bar> < 53" by simp
  then have e_hi: "e0 \<le> 52" by (simp add: e0_def floor_less_iff)
  define k where "k = nat (52 - e0)"
  have ek: "e0 - 52 = - int k" using e_hi by (simp add: k_def)
  have ulp: "2 powr of_int (e0 - 52) = inverse ((2::real) ^ k)"
    by (simp add: ek powr_minus powr_realpow)
  have q: "x / inverse ((2::real) ^ k) = of_int (n * 2 ^ k)"
    by (simp add: x_def field_simps)
  have m: "max e0 (- 1022) = e0" using e_lo by simp
  have "round_double x =
        of_int (round_half_even (x / inverse ((2::real) ^ k))) * inverse ((2::real) ^ k)"
    using False x1 unfolding round_double_def e0_def[symmetric] Let_def m ulp
    by (auto simp: x_def)
  also have "\<dots> = of_int (n * 2 ^ k) * inverse ((2::real) ^ k)"
    by (simp only: q round_half_even_int)
  also have "\<dots> = x"
    by (simp add: x_def field_simps)
  finally show ?thesis by (simp add: x_def)
qed

text \<open>
  A number whose absolute value is from \<open>2 ^ 52 / 2 ^ n\<close> below \<open>2 ^ 53 / 2 ^ n\<close> is
  rounded to a multiple of \<open>1 / 2 ^ n\<close>.
\<close>

lemma round_double_scaled:
  assumes lo: "2 ^ 52 \<le> \<bar>x\<bar> * 2 ^ n" and hi: "\<bar>x\<bar> * 2 ^ n < 2 ^ 53" and n: "n \<le> 1074"
  shows "round_double x = of_int (round_half_even (x * 2 ^ n)) / 2 ^ n"
proof -
  define u :: real where "u = 1 / 2 ^ n"
  have u0: "0 < u" by (simp add: u_def)
  have xlo: "2 ^ 52 * u \<le> \<bar>x\<bar>" using lo by (simp add: u_def field_simps)
  have xhi: "\<bar>x\<bar> < 2 ^ 53 * u" using hi by (simp add: u_def field_simps)
  have x0: "x \<noteq> 0" and xp: "0 < \<bar>x\<bar>" using xlo u0 by auto
  have upow: "u = 2 powr (- real n)"
    by (simp add: u_def powr_minus powr_realpow inverse_eq_divide)
  have p52: "2 powr of_int (52 - int n) = 2 ^ 52 * u"
  proof -
    have "2 powr of_int (52 - int n) = 2 powr (52 + (- real n))" by simp
    also have "\<dots> = 2 powr 52 * 2 powr (- real n)" by (rule powr_add)
    also have "2 powr (52::real) = 2 ^ 52" using powr_realpow[of 2 52] by simp
    finally show ?thesis by (simp add: upow)
  qed
  have p53: "2 powr of_int (52 - int n + 1) = 2 ^ 53 * u"
  proof -
    have "2 powr of_int (52 - int n + 1) = 2 powr (53 + (- real n))" by simp
    also have "\<dots> = 2 powr 53 * 2 powr (- real n)" by (rule powr_add)
    also have "2 powr (53::real) = 2 ^ 53" using powr_realpow[of 2 53] by simp
    finally show ?thesis by (simp add: upow)
  qed
  have e: "\<lfloor>log 2 \<bar>x\<bar>\<rfloor> = 52 - int n"
    using floor_log_eq_powr_iff[of "\<bar>x\<bar>" 2 "52 - int n"] xp xlo xhi p52 p53 by simp
  have mx: "max (52 - int n) (- 1022) = 52 - int n" using n by simp
  have ulp: "2 powr of_int (52 - int n - 52) = u" by (simp add: upow)
  have "round_double x = of_int (round_half_even (x / u)) * u"
    using x0 unfolding round_double_def e mx Let_def ulp by simp
  then show ?thesis by (simp add: u_def)
qed

text \<open>The doubles that occur in the examples.\<close>

lemma round_double_small:
  "round_double 0 = 0" "round_double 1 = 1" "round_double 2 = 2" "round_double 3 = 3"
  "round_double 6 = 6" "round_double 10 = 10" "round_double 12 = 12" "round_double 13 = 13"
  "round_double 50 = 50" "round_double 100 = 100" "round_double 127 = 127"
  "round_double 150 = 150"
  using round_double_int[of 0] round_double_int[of 1] round_double_int[of 2]
        round_double_int[of 3] round_double_int[of 6] round_double_int[of 10] round_double_int[of 12]
        round_double_int[of 13] round_double_int[of 50] round_double_int[of 100]
        round_double_int[of 127] round_double_int[of 150]
  by simp_all

lemma float_lit_04: "float_lit 0.4 = 7205759403792794 / 2 ^ 54"
proof -
  have "round_half_even (0.4 * 2 ^ 54) = 7205759403792794"
    by (simp add: round_half_even_def Let_def)
  then show ?thesis using round_double_scaled[of "0.4" 54] by (simp add: float_lit_def)
qed

section \<open>Scoring: threat level and relevance\<close>

lemma match_keywords_matches:
  "fst (match_keywords cl rs st) =
     fst st @ filter (\<lambda>r. str_contains cl (lower (fst r))) rs"
  by (induction cl rs st rule: match_keywords.induct) auto

lemma match_keywords_total:
  "fst (snd (match_keywords cl rs st)) =
     fst (snd st) +
     sum_list (map (\<lambda>r. snd (snd r)) (filter (\<lambda>r. str_contains cl (lower (fst r))) rs))"
  by (induction cl rs st rule: match_keywords.induct) auto

lemma match_hashtags_matches:
  "fst (match_hashtags cl rs st) =
     fst st @ filter (\<lambda>r. str_contains cl (lower (fst r))) rs"
  by (induction cl rs st rule: match_hashtags.induct) auto

lemma match_hashtags_total:
  "fst (snd (match_hashtags cl rs st)) =
     fst (snd st) +
     sum_list (map (\<lambda>r. snd (snd r)) (filter (\<lambda>r. str_contains cl (lower (fst r))) rs))"
  by (induction cl rs st rule: match_hashtags.induct) auto

lemma match_patterns_matches:
  "fst (match_patterns fa c rs st) =
     fst st @ map (\<lambda>r. (fst (snd r), fa (fst r) c, snd (snd r)))
                (filter (\<lambda>r. fa (fst r) c \<noteq> []) rs)"
  by (induction fa c rs st rule: match_patterns.induct) auto

lemma match_patterns_total:
  "snd (match_patterns fa c rs st) =
     snd st + sum_list (map (\<lambda>r. snd (snd r)) (filter (\<lambda>r. fa (fst r) c \<noteq> []) rs))"
  by (induction fa c rs st rule: match_patterns.induct) auto

lemmas match_loops =
  match_keywords_matches match_keywords_total match_hashtags_matches match_hashtags_total
  match_patterns_matches match_patterns_total

text \<open>The fields of the feature dictionary, in closed form.\<close>

lemma extract_features_fields:
  "matched_keywords (fst (extract_features fa pol nlp db c)) =
     filter (\<lambda>r. str_contains (lower c) (lower (fst r))) (nlp_keywords nlp)"
  "matched_hashtags (fst (extract_features fa pol nlp db c)) =
     filter (\<lambda>r. str_contains (lower c) (lower (fst r))) (nlp_hashtags nlp)"
  "matched_patterns (fst (extract_features fa pol nlp db c)) =
     map (\<lambda>r. (fst (snd r), fa (fst r) c, snd (snd r)))
       (filter (\<lambda>r. fa (fst r) c \<noteq> []) (nlp_patterns nlp))"
  "total_severity (fst (extract_features fa pol nlp db c)) =
     sum_list (map (\<lambda>r. snd (snd r))
       (filter (\<lambda>r. str_contains (lower c) (lower (fst r))) (nlp_keywords nlp))) +
     sum_list (map (\<lambda>r. snd (snd r))
       (filter (\<lambda>r. str_contains (lower c) (lower (fst r))) (nlp_hashtags nlp))) +
     sum_list (map (\<lambda>r. snd (snd r)) (filter (\<lambda>r. fa (fst r) c \<noteq> []) (nlp_patterns nlp)))"
  "threat_level (fst (extract_features fa pol nlp db c)) =
     threat_of (total_severity (fst (extract_features fa pol nlp db c)))"
  "sentiment_score (fst (extract_features fa pol nlp db c)) =
     (case pol c of None \<Rightarrow> 0 | Some p \<Rightarrow> p)"
  by (simp_all add: extract_features_def Let_def case_prod_beta match_loops)

text \<open>What the example text matches.\<close>

lemma example_text_keyword:
  "str_contains (lower example_text) (lower ''boycott india'')"
  by code_simp

lemma example_text_hashtag:
  "str_contains (lower example_text) (lower ''#boycottindia'')"
  by code_simp

lemma example_text_pattern:
  "literal_findall ''hindu terrorism'' example_text \<noteq> []"
  by code_simp

lemma neutral_text_keyword:
  "\<not> str_contains (lower neutral_text) (lower ''boycott india'')"
  by code_simp

lemma neutral_text_hashtag:
  "\<not> str_contains (lower neutral_text) (lower ''#boycottindia'')"
  by code_simp

lemma neutral_text_pattern:
  "literal_findall ''hindu terrorism'' neutral_text = []"
  by code_simp

lemmas example_matches =
  example_text_keyword example_text_hashtag example_text_pattern
  neutral_text_keyword neutral_text_hashtag neutral_text_pattern



text \<open>
  C6. A text is classified as campaign-relevant exactly when a keyword, a hashtag or a
  pattern matched it, or its sentiment is below -0.3 and its total severity above 3. So
  a text with a match is relevant whatever its sentiment, and a text without a match
  whose sentiment is at least -0.3 is not relevant.
\<close>

theorem relevance_gate:
  "(let r = is_anti_india_content findall polarity nlp db content;
        relevant = fst (fst r);
        F = snd (fst r)
    in F = fst (extract_features findall polarity nlp db content) \<and>
       relevant =
         (matched_keywords F \<noteq> [] \<or> matched_hashtags F \<noteq> [] \<or> matched_patterns F \<noteq> [] \<or>
          (sentiment_score F < - 0.3 \<and> total_severity F > 3)) \<and>
       (matched_keywords F \<noteq> [] \<or> matched_hashtags F \<noteq> [] \<or> matched_patterns F \<noteq> []
          \<longrightarrow> relevant) \<and>
       (matched_keywords F = [] \<and> matched_hashtags F = [] \<and> matched_patterns F = [] \<and>
        sentiment_score F \<ge> - 0.3 \<longrightarrow> \<not> relevant))"
  by (auto simp add: is_anti_india_content_def Let_def case_prod_beta)

theorem relevance_gate_witness:
  "fst (fst (is_anti_india_content literal_findall (\<lambda>t. Some 0.5) example_nlp initial_db
               example_text)) \<and>
   \<not> fst (fst (is_anti_india_content literal_findall (\<lambda>t. Some (- 0.3)) example_nlp initial_db
               neutral_text))"
proof -
  have m: "matched_keywords
      (fst (extract_features literal_findall (\<lambda>t. Some 0.5) example_nlp initial_db example_text))
      \<noteq> []"
    by (simp add: extract_features_fields example_nlp_def example_matches)
  have n: "matched_keywords
      (fst (extract_features literal_findall (\<lambda>t. Some (- 0.3)) example_nlp initial_db
         neutral_text)) = [] \<and>
    matched_hashtags
      (fst (extract_features literal_findall (\<lambda>t. Some (- 0.3)) example_nlp initial_db
         neutral_text)) = [] \<and>
    matched_patterns
      (fst (extract_features literal_findall (\<lambda>t. Some (- 0.3)) example_nlp initial_db
         neutral_text)) = [] \<and>
    sentiment_score
      (fst (extract_features literal_findall (\<lambda>t. Some (- 0.3)) example_nlp initial_db
         neutral_text)) \<ge> - 0.3"
    by (simp add: extract_features_fields example_nlp_def example_matches)
  show ?thesis
    using relevance_gate[of literal_findall "\<lambda>t. Some 0.5" example_nlp initial_db example_text]
          relevance_gate[of literal_findall "\<lambda>t. Some (- 0.3)" example_nlp initial_db
            neutral_text] m n
    by (simp add: Let_def)
qed

section \<open>Similarity measure and campaign threat level\<close>





lemma threat_scores_get_unknown:
  "l \<notin> {''LOW'', ''MEDIUM'', ''HIGH'', ''CRITICAL''} \<Longrightarrow> threat_scores_get l = 1"
  by (simp add: threat_scores_get_def)

lemma threat_scores_get_known:
  "threat_scores_get ''LOW'' = 1" "threat_scores_get ''MEDIUM'' = 2"
  "threat_scores_get ''HIGH'' = 3" "threat_scores_get ''CRITICAL'' = 4"
  by (simp_all add: threat_scores_get_def)

lemma threat_scores_as_low:
  "threat_scores_get (c_threat_level (as_low c)) = threat_scores_get (c_threat_level c)"
  by (simp add: as_low_def threat_scores_get_def)

text \<open>
  C10. On a non-empty list of members the campaign threat level is computed without an
  exception and is one of LOW, MEDIUM, HIGH and CRITICAL; a member whose level is none
  of the four counts with score 1, so the result is the same as if its level were LOW.
\<close>

theorem campaign_threat_level_total:
  "contents \<noteq> [] \<longrightarrow>
     (\<exists>level. calculate_campaign_threat_level contents = Inr level \<and>
              level \<in> {''LOW'', ''MEDIUM'', ''HIGH'', ''CRITICAL''}) \<and>
     (\<forall>c \<in> set contents.
        c_threat_level c \<notin> {''LOW'', ''MEDIUM'', ''HIGH'', ''CRITICAL''} \<longrightarrow>
        threat_scores_get (c_threat_level c) = 1) \<and>
     calculate_campaign_threat_level (map as_low contents) =
       calculate_campaign_threat_level contents"
proof (intro impI conjI)
  assume ne: "contents \<noteq> []"
  show "\<exists>level. calculate_campaign_threat_level contents = Inr level \<and>
              level \<in> {''LOW'', ''MEDIUM'', ''HIGH'', ''CRITICAL''}"
    using ne by (simp add: calculate_campaign_threat_level_def Let_def)
  show "\<forall>c \<in> set contents.
        c_threat_level c \<notin> {''LOW'', ''MEDIUM'', ''HIGH'', ''CRITICAL''} \<longrightarrow>
        threat_scores_get (c_threat_level c) = 1"
    using threat_scores_get_unknown by blast
  show "calculate_campaign_threat_level (map as_low contents) =
       calculate_campaign_threat_level contents"
    by (simp add: calculate_campaign_threat_level_def Let_def comp_def threat_scores_as_low)
qed

lemma mixed_levels_value:
  "calculate_campaign_threat_level mixed_levels = Inr ''HIGH''"
  by (simp add: mixed_levels_def post_def calculate_campaign_threat_level_def
        threat_scores_get_def Let_def)

theorem campaign_threat_level_total_witness:
  "mixed_levels \<noteq> [] \<and>
   calculate_campaign_threat_level mixed_levels = Inr ''HIGH'' \<and>
   threat_scores_get ''severe'' = 1 \<and>
   calculate_campaign_threat_level (map as_low mixed_levels) = Inr ''HIGH''"
proof -
  have ne: "mixed_levels \<noteq> []"
    by (simp add: mixed_levels_def)
  have mem: "post ''2'' ''bob'' (example_time 10 1 0) [] ''b'' ''severe'' \<in> set mixed_levels"
    by (simp add: mixed_levels_def)
  have lv: "c_threat_level (post ''2'' ''bob'' (example_time 10 1 0) [] ''b'' ''severe'') = ''severe''"
    by (simp add: post_def)
  have "threat_scores_get ''severe'' = 1"
    using campaign_threat_level_total[of mixed_levels] ne mem lv by fastforce
  then show ?thesis
    using campaign_threat_level_total[of mixed_levels] ne mixed_levels_value by simp
qed

section \<open>Detection counts\<close>

lemma update_detection_count_patterns:
  "db_patterns (update_detection_count db k ty) = db_patterns db"
  by (simp add: update_detection_count_def)

lemma match_keywords_patterns:
  "db_patterns (snd (snd (match_keywords cl rs st))) = db_patterns (snd (snd st))"
  by (induction cl rs st rule: match_keywords.induct)
     (auto simp: update_detection_count_patterns)

lemma match_hashtags_patterns:
  "db_patterns (snd (snd (match_hashtags cl rs st))) = db_patterns (snd (snd st))"
  by (induction cl rs st rule: match_hashtags.induct)
     (auto simp: update_detection_count_patterns)

lemma extract_features_db:
  "snd (extract_features fa pol nlp db c) =
     snd (snd (match_hashtags (lower c) (nlp_hashtags nlp)
       ([], fst (snd (match_keywords (lower c) (nlp_keywords nlp) ([], 0, db))),
        snd (snd (match_keywords (lower c) (nlp_keywords nlp) ([], 0, db))))))"
  by (simp add: extract_features_def Let_def case_prod_beta)

lemma initial_snapshot:
  "load_nlp_resources initial_db =
     \<lparr>nlp_keywords = [(''anti India'', ''direct_hate'', 9), (''hate India'', ''direct_hate'', 9)],
      nlp_hashtags = [(''#AntiIndia'', ''direct_hate'', 8)],
      nlp_patterns = [(''Pakistan (will )?defeat India'', ''Conflict incitement'', 6)]\<rparr>"
  by (simp add: load_nlp_resources_def initial_db_def get_active_keywords_def get_hashtags_def
        get_patterns_def)

lemma initial_text_matches:
  "str_contains (lower initial_text) (lower ''anti India'')"
  "\<not> str_contains (lower initial_text) (lower ''hate India'')"
  "str_contains (lower initial_text) (lower ''#AntiIndia'')"
  by code_simp+

lemma initial_counts:
  "map kw_detection_count (db_keywords
     (snd (snd (match_hashtags (lower initial_text) [(''#AntiIndia'', ''direct_hate'', 8)]
       ([], fst (snd (match_keywords (lower initial_text)
                  [(''anti India'', ''direct_hate'', 9), (''hate India'', ''direct_hate'', 9)]
                  ([], 0, initial_db))),
        snd (snd (match_keywords (lower initial_text)
                  [(''anti India'', ''direct_hate'', 9), (''hate India'', ''direct_hate'', 9)]
                  ([], 0, initial_db)))))))) = [0, 0]"
  "map ht_detection_count (db_hashtags
     (snd (snd (match_hashtags (lower initial_text) [(''#AntiIndia'', ''direct_hate'', 8)]
       ([], fst (snd (match_keywords (lower initial_text)
                  [(''anti India'', ''direct_hate'', 9), (''hate India'', ''direct_hate'', 9)]
                  ([], 0, initial_db))),
        snd (snd (match_keywords (lower initial_text)
                  [(''anti India'', ''direct_hate'', 9), (''hate India'', ''direct_hate'', 9)]
                  ([], 0, initial_db)))))))) = [0]"
  by code_simp+

text \<open>
  C3 requires the detection count of every matched keyword, hashtag and pattern to go up
  by one in a scoring call. On a store with rows of \<^verbatim>\<open>load_initial_keywords\<close> the
  text \<open>initial_text\<close> matches the keyword \<open>anti India\<close> and the hashtag \<open>#AntiIndia\<close>,
  and both counts are 0 before and after the call: the update looks the rule up by its
  lower-cased text, and the store holds it with capitals. The table of patterns is the
  same after any scoring call, whatever matched.
\<close>

theorem detection_count_not_incremented:
  "matched_keywords
     (fst (extract_features findall polarity (load_nlp_resources initial_db) initial_db
             initial_text)) = [(''anti India'', ''direct_hate'', 9)] \<and>
   matched_hashtags
     (fst (extract_features findall polarity (load_nlp_resources initial_db) initial_db
             initial_text)) = [(''#AntiIndia'', ''direct_hate'', 8)] \<and>
   map kw_detection_count (db_keywords initial_db) = [0, 0] \<and>
   map kw_detection_count
     (db_keywords (snd (extract_features findall polarity (load_nlp_resources initial_db)
                          initial_db initial_text))) = [0, 0] \<and>
   map ht_detection_count (db_hashtags initial_db) = [0] \<and>
   map ht_detection_count
     (db_hashtags (snd (extract_features findall polarity (load_nlp_resources initial_db)
                          initial_db initial_text))) = [0] \<and>
   db_patterns (snd (extract_features findall polarity nlp db content)) = db_patterns db"
proof (intro conjI)
  show "db_patterns (snd (extract_features findall polarity nlp db content)) = db_patterns db"
    by (simp add: extract_features_db match_hashtags_patterns match_keywords_patterns)
  show "map kw_detection_count
     (db_keywords (snd (extract_features findall polarity (load_nlp_resources initial_db)
                          initial_db initial_text))) = [0, 0]"
    by (simp only: extract_features_db initial_snapshot nlp_processor.select_convs
          initial_counts)
  show "map ht_detection_count
     (db_hashtags (snd (extract_features findall polarity (load_nlp_resources initial_db)
                          initial_db initial_text))) = [0]"
    by (simp only: extract_features_db initial_snapshot nlp_processor.select_convs
          initial_counts)
qed (simp_all add: extract_features_fields initial_snapshot initial_text_matches,
     simp_all add: initial_db_def)

section \<open>Hashtag clusters\<close>

text \<open>
  C2 requires no hashtag cluster for four items and one cluster for five items of three
  authors on one day. For \<open>four_posts\<close> the detector reports a cluster of 5 posts: the
  post that lists the hashtag twice is counted twice. For \<open>five_posts\<close> the driver
  reports nothing: its day key keeps the microseconds, so every item is a group of its
  own and no group reaches the three items needed to run the detectors.
\<close>

theorem hashtag_cluster_miscounts:
  "length four_posts = 4 \<and>
   detect_hashtag_coordination four_posts =
     Inr [\<lparr>hc_hashtag = ''#x'', hc_accounts_involved = [''bob'', ''carol'', ''alice''],
           hc_post_count = 5, hc_time_span = 900000000, hc_platforms = [''reddit''],
           hc_threat_level = ''LOW''\<rparr>] \<and>
   detect_coordinated_campaigns four_posts =
     Inr [Hashtag_coordination
           \<lparr>hc_hashtag = ''#x'', hc_accounts_involved = [''bob'', ''carol'', ''alice''],
            hc_post_count = 5, hc_time_span = 900000000, hc_platforms = [''reddit''],
            hc_threat_level = ''LOW''\<rparr>] \<and>
   map (\<lambda>c. dt_day (c_timestamp c)) five_posts = [739000, 739000, 739000, 739000, 739000] \<and>
   map c_author five_posts = [''alice'', ''bob'', ''carol'', ''alice'', ''bob''] \<and>
   map (\<lambda>c. map lower (c_hashtags c)) five_posts = [[''#x''], [''#x''], [''#x''], [''#x''], [''#x'']] \<and>
   map (\<lambda>g. length (snd g)) (time_grouped five_posts) = [1, 1, 1, 1, 1] \<and>
   detect_coordinated_campaigns five_posts = Inr []"
  by code_simp

section \<open>Adding a keyword\<close>

lemma enhanced_duplicate:
  "lower k \<in> set (map ek_keyword (edb_keywords e)) \<Longrightarrow>
     enhanced_add_keyword e k c w l = (False, e)"
  by (simp add: enhanced_add_keyword_def insert_keyword_def)

lemma enhanced_fresh:
  "lower k \<notin> set (map ek_keyword (edb_keywords e)) \<Longrightarrow>
     enhanced_add_keyword e k c w l =
       (True,
        e\<lparr>edb_keywords :=
             edb_keywords e @
             [\<lparr>ek_id = Suc (edb_seq e), ek_keyword = lower k, ek_category = c, ek_weight = w,
               ek_language = l, ek_detection_count = 0, ek_last_detected = None,
               ek_is_active = True\<rparr>],
           edb_seq := Suc (edb_seq e)\<rparr>)"
  by (simp add: enhanced_add_keyword_def insert_keyword_def)

text \<open>
  C7, as amended. In the store of enhanced\_keyword\_database.py, adding a keyword whose
  lower-cased text is already stored returns False, raises nothing (the
  \<^verbatim>\<open>IntegrityError\<close> of the insert is caught) and leaves the store unchanged; adding
  a new one returns True and appends the row under the next id. In the store of
  campaign\_detector.py adding always replaces: the rows with that text are removed and
  a fresh row is appended.
\<close>

theorem add_keyword_duplicate:
  "(lower k \<in> set (map ek_keyword (edb_keywords e)) \<longrightarrow>
      insert_keyword e (lower k) c w l = Inl IntegrityError \<and>
      enhanced_add_keyword e k c w l = (False, e)) \<and>
   (lower k \<notin> set (map ek_keyword (edb_keywords e)) \<longrightarrow>
      fst (enhanced_add_keyword e k c w l) = True \<and>
      edb_keywords (snd (enhanced_add_keyword e k c w l)) =
        edb_keywords e @
        [\<lparr>ek_id = Suc (edb_seq e), ek_keyword = lower k, ek_category = c, ek_weight = w,
          ek_language = l, ek_detection_count = 0, ek_last_detected = None,
          ek_is_active = True\<rparr>]) \<and>
   db_keywords (add_keyword db k c' s) =
     filter (\<lambda>r. kw_keyword r \<noteq> lower k) (db_keywords db) @
     [\<lparr>kw_id = Suc (kw_seq db), kw_keyword = lower k, kw_category = c', kw_severity = s,
       kw_detection_count = 0, kw_last_detected = None, kw_is_active = True\<rparr>]"
  by (simp add: enhanced_duplicate enhanced_fresh insert_keyword_def add_keyword_def)

lemma enhanced_example_keys:
  "lower ''Boycott India'' \<in> set (map ek_keyword (edb_keywords enhanced_example))"
  "lower ''ban goods'' \<notin> set (map ek_keyword (edb_keywords enhanced_example))"
  by code_simp+

theorem add_keyword_duplicate_witness:
  "enhanced_add_keyword enhanced_example ''Boycott India'' ''other'' 1 ''en'' =
     (False, enhanced_example) \<and>
   fst (enhanced_add_keyword enhanced_example ''ban goods'' ''other'' 1 ''en'') = True"
  using add_keyword_duplicate[of "''Boycott India''" enhanced_example "''other''" 1 "''en''"]
        add_keyword_duplicate[of "''ban goods''" enhanced_example "''other''" 1 "''en''"]
        enhanced_example_keys
  by blast

lemma stored_db_rows:
  "map (\<lambda>r. (kw_id r, kw_keyword r, kw_category r)) (db_keywords stored_db) =
     [(1, ''anti India'', ''direct_hate''), (2, ''hate India'', ''direct_hate''),
      (3, ''free kashmir'', ''separatist'')]"
  by code_simp

lemma stored_db_replaced:
  "map (\<lambda>r. (kw_id r, kw_keyword r, kw_category r))
     (db_keywords (add_keyword stored_db ''free kashmir'' ''other'' 1)) =
     [(1, ''anti India'', ''direct_hate''), (2, ''hate India'', ''direct_hate''),
      (4, ''free kashmir'', ''other'')]"
  by code_simp

text \<open>
  C7 as stated fails: in the first store a second add of a stored keyword replaces the
  stored row although no replacement was asked for, and in the second store it returns
  the value False instead of raising, a successful add returning True instead of an id.
\<close>

theorem add_keyword_counterexample:
  "lower ''free kashmir'' \<in> set (map kw_keyword (db_keywords stored_db)) \<and>
   db_keywords (add_keyword stored_db ''free kashmir'' ''other'' 1) \<noteq> db_keywords stored_db \<and>
   lower ''Boycott India'' \<in> set (map ek_keyword (edb_keywords enhanced_example)) \<and>
   enhanced_add_keyword enhanced_example ''Boycott India'' ''other'' 1 ''en'' =
     (False, enhanced_example) \<and>
   enhanced_add_keyword enhanced_example ''ban goods'' ''other'' 1 ''en'' =
     (True,
      \<lparr>edb_keywords =
         edb_keywords enhanced_example @
         [\<lparr>ek_id = 2, ek_keyword = ''ban goods'', ek_category = ''other'', ek_weight = 1,
           ek_language = ''en'', ek_detection_count = 0, ek_last_detected = None,
           ek_is_active = True\<rparr>],
       edb_seq = 2\<rparr>)"
proof -
  have "db_keywords (add_keyword stored_db ''free kashmir'' ''other'' 1) \<noteq> db_keywords stored_db"
    using stored_db_rows stored_db_replaced by fastforce
  moreover have "lower ''free kashmir'' \<in> set (map kw_keyword (db_keywords stored_db))"
    by code_simp
  moreover have "enhanced_add_keyword enhanced_example ''ban goods'' ''other'' 1 ''en'' =
     (True,
      \<lparr>edb_keywords =
         edb_keywords enhanced_example @
         [\<lparr>ek_id = 2, ek_keyword = ''ban goods'', ek_category = ''other'', ek_weight = 1,
           ek_language = ''en'', ek_detection_count = 0, ek_last_detected = None,
           ek_is_active = True\<rparr>],
       edb_seq = 2\<rparr>)"
    by code_simp
  ultimately show ?thesis
    using enhanced_example_keys(1) enhanced_duplicate by blast
qed

section \<open>Similarity clusters\<close>

lemma absorb_similar_mono:
  "fst st \<subseteq> fst (absorb_similar c js st)"
  by (induction c js st rule: absorb_similar.induct) auto

lemma absorb_similar_shape:
  "\<exists>new. snd (absorb_similar c js (P, S)) = S @ new \<and>
         fst (absorb_similar c js (P, S)) = P \<union> set (map fst new) \<and>
         set (map fst new) \<subseteq> set (map fst js) - P \<and>
         (distinct (map fst js) \<longrightarrow> distinct (map fst new))"
proof (induction js arbitrary: P S)
  case Nil
  then show ?case by simp
next
  case (Cons x js)
  obtain j c2 where x: "x = (j, c2)" by (cases x)
  show ?case
  proof (cases "j \<notin> P \<and> calculate_content_similarity (c_content c) (c_content c2) > 0.8")
    case True
    from Cons.IH[of "insert j P" "S @ [(j, c2)]"]
    obtain new where n:
      "snd (absorb_similar c js (insert j P, S @ [(j, c2)])) = (S @ [(j, c2)]) @ new"
      "fst (absorb_similar c js (insert j P, S @ [(j, c2)])) = insert j P \<union> set (map fst new)"
      "set (map fst new) \<subseteq> set (map fst js) - insert j P"
      "distinct (map fst js) \<longrightarrow> distinct (map fst new)"
      by blast
    show ?thesis
      using True x n
      by (intro exI[of _ "(j, c2) # new"]) auto
  next
    case False
    from Cons.IH[of P S]
    obtain new where n:
      "snd (absorb_similar c js (P, S)) = S @ new"
      "fst (absorb_similar c js (P, S)) = P \<union> set (map fst new)"
      "set (map fst new) \<subseteq> set (map fst js) - P"
      "distinct (map fst js) \<longrightarrow> distinct (map fst new)"
      by blast
    show ?thesis
      using False x n
      by (intro exI[of _ new]) auto
  qed
qed

lemma absorb_similar_marks:
  "(j, c2) \<in> set js \<Longrightarrow> j \<notin> P \<Longrightarrow>
   calculate_content_similarity (c_content c) (c_content c2) > 0.8 \<Longrightarrow>
   j \<in> fst (absorb_similar c js (P, S))"
proof (induction js arbitrary: P S)
  case Nil
  then show ?case by simp
next
  case (Cons x js)
  obtain j' c' where x: "x = (j', c')" by (cases x)
  show ?case
  proof (cases "j' = j")
    case True
    show ?thesis
    proof (cases "calculate_content_similarity (c_content c) (c_content c') > 0.8")
      case True
      have "j \<in> fst (insert j P, S @ [(j, c')])" by simp
      then have "j \<in> fst (absorb_similar c js (insert j P, S @ [(j, c')]))"
        using absorb_similar_mono by blast
      then show ?thesis using x \<open>j' = j\<close> True Cons.prems by simp
    next
      case False
      then have "(j, c2) \<in> set js" using Cons.prems x \<open>j' = j\<close> by auto
      then show ?thesis using Cons.IH Cons.prems x \<open>j' = j\<close> False by simp
    qed
  next
    case False
    then have mem: "(j, c2) \<in> set js" using Cons.prems x by auto
    show ?thesis
    proof (cases "j' \<notin> P \<and> calculate_content_similarity (c_content c) (c_content c') > 0.8")
      case True
      have "j \<notin> insert j' P" using False Cons.prems by simp
      then show ?thesis using Cons.IH[OF mem _ Cons.prems(3)] x True by simp
    next
      case False
      then show ?thesis using Cons.IH[OF mem Cons.prems(2) Cons.prems(3)] x by auto
    qed
  qed
qed

lemma threat_level_defined:
  "xs \<noteq> [] \<Longrightarrow> \<exists>level. calculate_campaign_threat_level xs = Inr level"
  by (simp add: calculate_campaign_threat_level_def Let_def)


lemma similarity_loop_new:
  "\<exists>P' new. similarity_loop contents items (P, C) = Inr (P', C @ new) \<and> P \<subseteq> P' \<and>
            set (concat (map sc_member_ids new)) \<subseteq> P' - P \<and>
            distinct (concat (map sc_member_ids new))"
proof (induction items arbitrary: P C)
  case Nil
  show ?case by (intro exI[of _ P] exI[of _ "[]"]) simp
next
  case (Cons x items)
  obtain i c1 where x: "x = (i, c1)" by (cases x)
  show ?case
  proof (cases "i \<in> P")
    case True
    then show ?thesis using Cons.IH[of P C] x by simp
  next
    case False
    define js where "js = List.enumerate (i + 1) (drop (i + 1) contents)"
    define st where "st = absorb_similar c1 js (P, [(i, c1)])"
    obtain newS where sh:
      "snd st = [(i, c1)] @ newS"
      "fst st = P \<union> set (map fst newS)"
      "set (map fst newS) \<subseteq> set (map fst js) - P"
      "distinct (map fst js) \<longrightarrow> distinct (map fst newS)"
      using absorb_similar_shape[of c1 js P "[(i, c1)]"] unfolding st_def by blast
    have later: "\<forall>j \<in> set (map fst js). i < j"
      by (auto simp: js_def)
    have dist: "distinct (map fst newS)"
      using sh(4) by (simp add: js_def)
    have ids: "map fst (snd st) = i # map fst newS"
      using sh(1) by simp
    have fresh: "i \<notin> set (map fst newS)"
      using sh(3) later by blast
    have ne: "map snd (snd st) \<noteq> []"
      using sh(1) by simp
    show ?thesis
    proof (cases "length (snd st) \<ge> 3 \<and>
                  length (remdups (map (\<lambda>x. c_author (snd x)) (snd st))) \<ge> 2")
      case True
      obtain level where lv: "calculate_campaign_threat_level (map snd (snd st)) = Inr level"
        using threat_level_defined[OF ne] by blast
      define camp where "camp =
        \<lparr>sc_similar_posts = length (snd st),
         sc_accounts_involved = remdups (map (\<lambda>x. c_author (snd x)) (snd st)),
         sc_content_template = take 200 (c_content c1),
         sc_platforms = remdups (map (\<lambda>x. c_platform (snd x)) (snd st)),
         sc_threat_level = level,
         sc_member_ids = map fst (snd st)\<rparr>"
      have step: "similarity_loop contents (x # items) (P, C) =
                  similarity_loop contents items (insert i (fst st), C @ [camp])"
        using False True lv x
        by (simp add: st_def js_def camp_def Let_def case_prod_beta)
      obtain P' new2 where ih:
        "similarity_loop contents items (insert i (fst st), C @ [camp]) =
           Inr (P', (C @ [camp]) @ new2)"
        "insert i (fst st) \<subseteq> P'"
        "set (concat (map sc_member_ids new2)) \<subseteq> P' - insert i (fst st)"
        "distinct (concat (map sc_member_ids new2))"
        using Cons.IH[of "insert i (fst st)" "C @ [camp]"] by blast
      have cid: "sc_member_ids camp = i # map fst newS"
        by (simp add: camp_def ids)
      have sub: "set (sc_member_ids camp) \<subseteq> insert i (fst st) - P"
        using cid sh(2) sh(3) False by auto
      have "similarity_loop contents (x # items) (P, C) = Inr (P', C @ (camp # new2))"
        using step ih(1) by simp
      moreover have "P \<subseteq> P'"
        using ih(2) sh(2) by blast
      moreover have "set (concat (map sc_member_ids (camp # new2))) \<subseteq> P' - P"
      proof -
        have PP: "P \<subseteq> fst st" using sh(2) by blast
        have "set (concat (map sc_member_ids (camp # new2))) =
              set (sc_member_ids camp) \<union> set (concat (map sc_member_ids new2))"
          by simp
        then show ?thesis using sub ih(2) ih(3) PP by blast
      qed
      moreover have "distinct (concat (map sc_member_ids (camp # new2)))"
        using cid dist fresh ih(3) ih(4) sub by auto
      ultimately show ?thesis by blast
    next
      case False2: False
      have step: "similarity_loop contents (x # items) (P, C) =
                  similarity_loop contents items (fst st, C)"
        using False False2 x
        by (auto simp add: st_def js_def Let_def case_prod_beta)
      obtain P' new2 where ih:
        "similarity_loop contents items (fst st, C) = Inr (P', C @ new2)"
        "fst st \<subseteq> P'"
        "set (concat (map sc_member_ids new2)) \<subseteq> P' - fst st"
        "distinct (concat (map sc_member_ids new2))"
        using Cons.IH[of "fst st" C] by blast
      have "P \<subseteq> fst st" using sh(2) by blast
      then show ?thesis using step ih by (intro exI[of _ P'] exI[of _ new2]) auto
    qed
  qed
qed

lemma similarity_loop_marks:
  assumes "i \<notin> P" "i < j" "j < length contents" "j \<notin> P"
    "calculate_content_similarity (c_content c1) (c_content (contents ! j)) > 0.8"
  shows "\<exists>P' C'. similarity_loop contents [(i, c1)] (P, C) = Inr (P', C') \<and> j \<in> P'"
proof -
  define js where "js = List.enumerate (i + 1) (drop (i + 1) contents)"
  define st where "st = absorb_similar c1 js (P, [(i, c1)])"
  have mem: "(j, contents ! j) \<in> set js"
    using assms(2,3) by (auto simp: js_def in_set_enumerate_eq)
  have marked: "j \<in> fst st"
    unfolding st_def using absorb_similar_marks[OF mem assms(4) assms(5)] .
  obtain newS where sh: "snd st = [(i, c1)] @ newS"
    using absorb_similar_shape[of c1 js P "[(i, c1)]"] unfolding st_def by blast
  have ne: "map snd (snd st) \<noteq> []"
    using sh by simp
  obtain level where lv: "calculate_campaign_threat_level (map snd (snd st)) = Inr level"
    using threat_level_defined[OF ne] by blast
  show ?thesis
  proof (cases "length (snd st) \<ge> 3 \<and>
                length (remdups (map (\<lambda>x. c_author (snd x)) (snd st))) \<ge> 2")
    case True
    then show ?thesis
      using assms(1) lv marked
      by (simp add: st_def js_def Let_def case_prod_beta)
  next
    case False
    then show ?thesis
      using assms(1) marked
      by (auto simp add: st_def js_def Let_def case_prod_beta)
  qed
qed


text \<open>
  C9. One run of the similarity detector returns its clusters without an exception, and
  no position occurs twice in their member lists, so an item is in at most one reported
  cluster. The reason is the set \<open>processed\<close>: when the seed \<open>i\<close> is visited, a later
  unprocessed item \<open>j\<close> whose similarity to the seed exceeds 0.8 is in \<open>processed\<close>
  afterwards, whether or not the group of \<open>i\<close> is reported; and the clusters that any
  further part of the loop adds contain no item that was in \<open>processed\<close> before.
\<close>

theorem similarity_clusters_disjoint:
  "(\<exists>campaigns. detect_content_similarity contents = Inr campaigns \<and>
       distinct (concat (map sc_member_ids campaigns))) \<and>
   (i \<notin> P \<and> i < j \<and> j < length contents \<and> j \<notin> P \<and>
    calculate_content_similarity (c_content c1) (c_content (contents ! j)) > 0.8 \<longrightarrow>
      (\<exists>P' C'. similarity_loop contents [(i, c1)] (P, C) = Inr (P', C') \<and> j \<in> P')) \<and>
   (\<exists>P' new. similarity_loop contents items (P, C) = Inr (P', C @ new) \<and> P \<subseteq> P' \<and>
       set (concat (map sc_member_ids new)) \<inter> P = {})"
proof (intro conjI impI)
  obtain P' new where r:
    "similarity_loop contents (List.enumerate 0 contents) ({}, []) = Inr (P', [] @ new)"
    "distinct (concat (map sc_member_ids new))"
    using similarity_loop_new[of contents "List.enumerate 0 contents" "{}" "[]"] by blast
  then show "\<exists>campaigns. detect_content_similarity contents = Inr campaigns \<and>
       distinct (concat (map sc_member_ids campaigns))"
    by (simp add: detect_content_similarity_def)
next
  assume "i \<notin> P \<and> i < j \<and> j < length contents \<and> j \<notin> P \<and>
    calculate_content_similarity (c_content c1) (c_content (contents ! j)) > 0.8"
  then show "\<exists>P' C'. similarity_loop contents [(i, c1)] (P, C) = Inr (P', C') \<and> j \<in> P'"
    using similarity_loop_marks by blast
next
  show "\<exists>P' new. similarity_loop contents items (P, C) = Inr (P', C @ new) \<and> P \<subseteq> P' \<and>
       set (concat (map sc_member_ids new)) \<inter> P = {}"
    using similarity_loop_new[of contents items P C] by blast
qed

lemma similar_posts_facts:
  "length similar_posts = 5"
  "calculate_content_similarity (c_content (similar_posts ! 0)) (c_content (similar_posts ! 2))
     > 0.8"
  "calculate_content_similarity (c_content (similar_posts ! 1)) (c_content (similar_posts ! 2))
     > 0.8"
  by code_simp+

lemma similar_posts_run:
  "similarity_loop similar_posts [(0, similar_posts ! 0)] ({}, []) = Inr ({2}, [])"
  "map sc_member_ids
     (case detect_content_similarity similar_posts of Inl e \<Rightarrow> [] | Inr cs \<Rightarrow> cs) = [[1, 3, 4]]"
  by code_simp+

theorem similarity_clusters_disjoint_witness:
  "(\<exists>P' C'. similarity_loop similar_posts [(0, similar_posts ! 0)] ({}, []) = Inr (P', C') \<and>
             2 \<in> P') \<and>
   similarity_loop similar_posts [(0, similar_posts ! 0)] ({}, []) = Inr ({2}, []) \<and>
   calculate_content_similarity (c_content (similar_posts ! 1)) (c_content (similar_posts ! 2))
     > 0.8 \<and>
   (\<exists>campaigns. detect_content_similarity similar_posts = Inr campaigns \<and>
       distinct (concat (map sc_member_ids campaigns)) \<and>
       map sc_member_ids campaigns = [[1, 3, 4]])"
proof -
  have hyp: "(0::nat) \<notin> {} \<and> (0::nat) < 2 \<and> 2 < length similar_posts \<and> (2::nat) \<notin> {} \<and>
    calculate_content_similarity (c_content (similar_posts ! 0))
      (c_content (similar_posts ! 2)) > 0.8"
    using similar_posts_facts by simp
  have a: "\<exists>P' C'. similarity_loop similar_posts [(0, similar_posts ! 0)] ({}, []) = Inr (P', C') \<and>
             2 \<in> P'"
    using similarity_clusters_disjoint[of similar_posts 0 "{}" 2 "similar_posts ! 0" "[]" "[]"] hyp
    by blast
  obtain campaigns where c:
    "detect_content_similarity similar_posts = Inr campaigns"
    "distinct (concat (map sc_member_ids campaigns))"
    using similarity_clusters_disjoint[of similar_posts 0 "{}" 2 "similar_posts ! 0" "[]" "[]"]
    by blast
  have m: "map sc_member_ids campaigns = [[1, 3, 4]]"
    using similar_posts_run(2) c(1) by simp
  have b: "\<exists>campaigns. detect_content_similarity similar_posts = Inr campaigns \<and>
       distinct (concat (map sc_member_ids campaigns)) \<and>
       map sc_member_ids campaigns = [[1, 3, 4]]"
    using c m by (intro exI[of _ campaigns]) simp
  show ?thesis
    using a b similar_posts_run(1) similar_posts_facts(3) by (intro conjI) assumption+
qed

section \<open>Trending anomalies\<close>




















section \<open>Influencer ranking\<close>

lemma first_seen_snoc:
  "first_seen (cs @ [c]) =
     (if c_author c \<in> set (first_seen cs) then first_seen cs else first_seen cs @ [c_author c])"
  by (simp add: first_seen_def)

lemma first_seen_distinct: "distinct (first_seen cs)"
  by (simp add: first_seen_def)

lemma first_seen_set: "set (first_seen cs) = set (map c_author cs)"
  by (simp add: first_seen_def)

lemma update_author_map:
  "distinct as \<Longrightarrow>
   update_author a f (map (\<lambda>b. (b, M b)) as) =
     (if a \<in> set as then map (\<lambda>b. (b, if b = a then f (M b) else M b)) as
      else map (\<lambda>b. (b, M b)) as @ [(a, f default_metrics)])"
  by (induction as) auto

lemma author_metrics_of_snoc:
  "author_metrics_of b (cs @ [c]) =
     (if c_author c = b then update_metrics c (author_metrics_of b cs)
      else author_metrics_of b cs)"
  by (simp add: author_metrics_of_def author_posts_def)

lemma author_metrics_of_new:
  "a \<notin> set (map c_author cs) \<Longrightarrow> author_metrics_of a cs = default_metrics"
proof -
  assume "a \<notin> set (map c_author cs)"
  then have "filter (\<lambda>c. c_author c = a) cs = []"
    by (induction cs) auto
  then show ?thesis by (simp add: author_metrics_of_def author_posts_def)
qed

lemma collect_author_metrics_eq:
  "collect_author_metrics cs = map (\<lambda>a. (a, author_metrics_of a cs)) (first_seen cs)"
proof (induction cs rule: rev_induct)
  case Nil
  then show ?case by (simp add: collect_author_metrics_def first_seen_def)
next
  case (snoc c cs)
  have step: "collect_author_metrics (cs @ [c]) =
              update_author (c_author c) (update_metrics c) (collect_author_metrics cs)"
    by (simp add: collect_author_metrics_def)
  show ?case
  proof (cases "c_author c \<in> set (first_seen cs)")
    case True
    then show ?thesis
      using snoc.IH step first_seen_distinct[of cs]
      by (simp add: update_author_map first_seen_snoc author_metrics_of_snoc)
  next
    case False
    then have new: "author_metrics_of (c_author c) cs = default_metrics"
      using author_metrics_of_new first_seen_set by blast
    have others: "\<And>b. b \<in> set (first_seen cs) \<Longrightarrow> c_author c \<noteq> b"
      using False by blast
    show ?thesis
      using snoc.IH step first_seen_distinct[of cs] False new others
      by (simp add: update_author_map first_seen_snoc author_metrics_of_snoc)
  qed
qed


lemma fold_metrics:
  "m_total_engagement (foldl (\<lambda>m c. update_metrics c m) m ps) =
     m_total_engagement m + sum_list (map (\<lambda>c. engagement_sum (c_engagement c)) ps) \<and>
   m_viral_posts (foldl (\<lambda>m c. update_metrics c m) m ps) =
     m_viral_posts m + length (filter (\<lambda>c. ea_is_viral (analyze_engagement c)) ps) \<and>
   m_threat_score (foldl (\<lambda>m c. update_metrics c m) m ps) =
     m_threat_score m + sum_list (map threat_points ps) \<and>
   m_post_count (foldl (\<lambda>m c. update_metrics c m) m ps) = m_post_count m + length ps \<and>
   set (m_platforms (foldl (\<lambda>m c. update_metrics c m) m ps)) =
     set (m_platforms m) \<union> set (map c_platform ps) \<and>
   (distinct (m_platforms m) \<longrightarrow>
      distinct (m_platforms (foldl (\<lambda>m c. update_metrics c m) m ps)))"
proof (induction ps arbitrary: m)
  case Nil
  show ?case by simp
next
  case (Cons p ps)
  show ?case
    using Cons.IH[of "update_metrics p m"]
    by (auto simp: update_metrics_def threat_points_def)
qed

lemma author_score:
  "influence_score_of (author_metrics_of a cs) = spec_influence_score a cs"
proof -
  define m where "m = author_metrics_of a cs"
  have f: "m_total_engagement m =
             sum_list (map (\<lambda>c. engagement_sum (c_engagement c)) (author_posts a cs))"
          "m_viral_posts m =
             length (filter (\<lambda>c. ea_is_viral (analyze_engagement c)) (author_posts a cs))"
          "m_threat_score m = sum_list (map threat_points (author_posts a cs))"
          "set (m_platforms m) = set (map c_platform (author_posts a cs))"
          "distinct (m_platforms m)"
    using fold_metrics[of default_metrics "author_posts a cs"]
    by (simp_all add: m_def author_metrics_of_def default_metrics_def)
  have "length (m_platforms m) = card (set (map c_platform (author_posts a cs)))"
    using f(4) f(5) distinct_card by fastforce
  then show ?thesis
    using f(1-3) unfolding m_def[symmetric]
    by (simp add: influence_score_of_def spec_influence_score_def weighted_sum_def
          author_totals_def Let_def)
qed

lemma make_influencer_fields:
  "inf_author (make_influencer (a, m)) = a"
  "inf_influence_score (make_influencer (a, m)) = influence_score_of m"
  by (simp_all add: make_influencer_def Let_def influence_score_of_def)

lemma unsorted_influencers:
  "map inf_author (map make_influencer (collect_author_metrics cs)) = first_seen cs"
  "map inf_influence_score (map make_influencer (collect_author_metrics cs)) =
     map (\<lambda>a. spec_influence_score a cs) (first_seen cs)"
  by (simp_all add: collect_author_metrics_eq comp_def make_influencer_fields author_score)

lemma unsorted_entry:
  "x \<in> set (map make_influencer (collect_author_metrics cs)) \<Longrightarrow>
     inf_author x \<in> set (map c_author cs) \<and>
     inf_influence_score x = spec_influence_score (inf_author x) cs"
  using first_seen_set[of cs]
  by (auto simp: collect_author_metrics_eq make_influencer_fields author_score)

lemma unsorted_ties:
  "map inf_author
     (filter (\<lambda>x. inf_influence_score x = k) (map make_influencer (collect_author_metrics cs))) =
   filter (\<lambda>a. spec_influence_score a cs = k) (first_seen cs)"
  by (simp add: collect_author_metrics_eq filter_map comp_def make_influencer_fields author_score)

text \<open>
  C4, as amended. Every author of the batch has exactly one entry; its influence score
  is total engagement * 0.4 + viral posts * 100 + threat score * 10 + platforms * 50
  over the author's posts, evaluated from left to right in float arithmetic, the threat
  score adding 10 per CRITICAL, 5 per HIGH and 2 per MEDIUM post; the list is sorted by
  this float, largest first; and the entries of one score stand in the order in which
  their authors first appear in the batch.
\<close>

theorem influence_ranking:
  "(\<forall>x \<in> set (identify_influencers contents).
      inf_author x \<in> set (map c_author contents) \<and>
      inf_influence_score x = spec_influence_score (inf_author x) contents) \<and>
   set (map inf_author (identify_influencers contents)) = set (map c_author contents) \<and>
   distinct (map inf_author (identify_influencers contents)) \<and>
   sorted (map (\<lambda>x. - inf_influence_score x) (identify_influencers contents)) \<and>
   map inf_author
     (filter (\<lambda>x. inf_influence_score x = k) (identify_influencers contents)) =
   filter (\<lambda>a. spec_influence_score a contents = k) (first_seen contents)"
proof (intro conjI ballI)
  let ?u = "map make_influencer (collect_author_metrics contents)"
  have res: "identify_influencers contents = sort_key (\<lambda>x. - inf_influence_score x) ?u"
    by (simp add: identify_influencers_def)
  have su: "set (identify_influencers contents) = set ?u"
    unfolding res by simp
  fix x assume "x \<in> set (identify_influencers contents)"
  then have "x \<in> set ?u" using su by simp
  then show "inf_author x \<in> set (map c_author contents)"
    and "inf_influence_score x = spec_influence_score (inf_author x) contents"
    using unsorted_entry by blast+
next
  let ?u = "map make_influencer (collect_author_metrics contents)"
  have res: "identify_influencers contents = sort_key (\<lambda>x. - inf_influence_score x) ?u"
    by (simp add: identify_influencers_def)
  have "set (identify_influencers contents) = set ?u"
    unfolding res by simp
  then have "set (map inf_author (identify_influencers contents)) = inf_author ` set ?u"
    by simp
  also have "\<dots> = set (map inf_author ?u)"
    by (simp only: set_map)
  also have "\<dots> = set (first_seen contents)"
    by (simp only: unsorted_influencers(1))
  also have "\<dots> = set (map c_author contents)"
    by (rule first_seen_set)
  finally show "set (map inf_author (identify_influencers contents)) = set (map c_author contents)" .
next
  let ?u = "map make_influencer (collect_author_metrics contents)"
  have res: "identify_influencers contents = sort_key (\<lambda>x. - inf_influence_score x) ?u"
    by (simp add: identify_influencers_def)
  have "distinct (map inf_author ?u)"
    using unsorted_influencers(1)[of contents] first_seen_distinct[of contents] by simp
  then have "distinct ?u \<and> inj_on inf_author (set ?u)"
    by (simp only: distinct_map)
  then have "distinct (sort_key (\<lambda>x. - inf_influence_score x) ?u) \<and>
             inj_on inf_author (set (sort_key (\<lambda>x. - inf_influence_score x) ?u))"
    by simp
  then show "distinct (map inf_author (identify_influencers contents))"
    unfolding res by (simp only: distinct_map)
next
  show "sorted (map (\<lambda>x. - inf_influence_score x) (identify_influencers contents))"
    by (simp add: identify_influencers_def)
next
  let ?u = "map make_influencer (collect_author_metrics contents)"
  have "filter (\<lambda>x. - inf_influence_score x = - k) (identify_influencers contents) =
        filter (\<lambda>x. - inf_influence_score x = - k) ?u"
    unfolding identify_influencers_def by (rule sort_key_stable)
  then have "filter (\<lambda>x. inf_influence_score x = k) (identify_influencers contents) =
        filter (\<lambda>x. inf_influence_score x = k) ?u"
    by simp
  then show "map inf_author
     (filter (\<lambda>x. inf_influence_score x = k) (identify_influencers contents)) =
   filter (\<lambda>a. spec_influence_score a contents = k) (first_seen contents)"
    using unsorted_ties by simp
qed

text \<open>The result as the sorted list of the entries of the authors in first-seen order.\<close>

lemma identify_influencers_eq:
  "identify_influencers cs =
     sort_key (\<lambda>x. - inf_influence_score x)
       (map (\<lambda>a. make_influencer (a, author_metrics_of a cs)) (first_seen cs))"
  by (simp add: identify_influencers_def collect_author_metrics_eq comp_def)

lemma entry_score:
  "inf_influence_score (make_influencer (a, author_metrics_of a cs)) = spec_influence_score a cs"
  by (simp add: make_influencer_fields author_score)

lemma weighted_sum_small:
  "weighted_sum (0, 0, 0, 1) = 50"
  "weighted_sum (0, 0, 10, 1) = 150"
  "weighted_sum (0, 0, 0, Suc 0) = 50"
  "weighted_sum (0, 0, 10, Suc 0) = 150"
  by (simp_all add: weighted_sum_def fadd_def fmul_def float_of_int_def round_double_small)

lemma is_viral_eq:
  "ea_is_viral (analyze_engagement c) =
     (engagement_get (c_engagement c) ''likes'' 0 > 1000 \<or>
      engagement_get (c_engagement c) ''shares'' 0 > 500 \<or>
      engagement_get (c_engagement c) ''comments'' 0 > 200)"
  by (simp add: analyze_engagement_def Let_def)

lemma author_totals_eq:
  "author_totals a contents =
     (sum_list (map (\<lambda>c. engagement_sum (c_engagement c)) (author_posts a contents)),
      length (filter (\<lambda>c. engagement_get (c_engagement c) ''likes'' 0 > 1000 \<or>
                          engagement_get (c_engagement c) ''shares'' 0 > 500 \<or>
                          engagement_get (c_engagement c) ''comments'' 0 > 200)
                (author_posts a contents)),
      sum_list (map threat_points (author_posts a contents)),
      card (set (map c_platform (author_posts a contents))))"
  by (simp add: author_totals_def Let_def is_viral_eq)

lemma tie_posts_totals:
  "first_seen tie_posts = [''b'', ''a'', ''c'']"
  "author_totals ''b'' tie_posts = (0, 0, 0, 1)"
  "author_totals ''a'' tie_posts = (0, 0, 0, 1)"
  "author_totals ''c'' tie_posts = (0, 0, 0, 1)"
  unfolding author_totals_eq by code_simp+

lemma tie_posts_run:
  "map inf_author (identify_influencers tie_posts) = [''b'', ''a'', ''c'']"
  "map inf_influence_score (identify_influencers tie_posts) = [50, 50, 50]"
  by (simp_all add: identify_influencers_eq tie_posts_totals entry_score
        author_score spec_influence_score_def weighted_sum_small make_influencer_fields)

lemma ranked_posts_totals:
  "first_seen ranked_posts = [''b'', ''a'', ''c'']"
  "author_totals ''b'' ranked_posts = (0, 0, 0, 1)"
  "author_totals ''a'' ranked_posts = (0, 0, 0, 1)"
  "author_totals ''c'' ranked_posts = (0, 0, 10, 1)"
  unfolding author_totals_eq by code_simp+

lemma ranked_posts_run:
  "identify_influencers ranked_posts \<noteq> []"
  "inf_author (hd (identify_influencers ranked_posts)) = ''c''"
  "spec_influence_score ''c'' ranked_posts = 150"
  "filter (\<lambda>a. spec_influence_score a ranked_posts = 50) (first_seen ranked_posts) =
     [''b'', ''a'']"
  by (simp_all add: identify_influencers_eq ranked_posts_totals entry_score
        author_score spec_influence_score_def weighted_sum_small make_influencer_fields)

text \<open>
  The two posts of \<open>rounding_posts\<close>: 2 * 0.4 + 50 + 50 is 100.8 as a float and
  127 * 0.4 + 50 is 100.80000000000001, the next double, so that \<open>b\<close> is ranked before
  \<open>a\<close>.
\<close>

lemma weighted_sum_a: "weighted_sum (2, 0, 5, 1) = 7093169413108531 / 2 ^ 46"
proof -
  have s1: "round_double (2 * (7205759403792794 / 2 ^ 54)) = 7205759403792794 / 2 ^ 53"
  proof -
    have "round_half_even (2 * (7205759403792794 / 2 ^ 54) * 2 ^ 53) = 7205759403792794"
      by (simp add: round_half_even_def Let_def)
    then show ?thesis
      using round_double_scaled[of "2 * (7205759403792794 / 2 ^ 54)" 53] by simp
  qed
  have s2: "round_double (7205759403792794 / 2 ^ 53) = 7205759403792794 / 2 ^ 53"
  proof -
    have "round_half_even (7205759403792794 / 2 ^ 53 * 2 ^ 53) = 7205759403792794"
      by (simp add: round_half_even_def Let_def)
    then show ?thesis
      using round_double_scaled[of "7205759403792794 / 2 ^ 53" 53] by simp
  qed
  have s3: "round_double (7205759403792794 / 2 ^ 53 + 50) = 7149464408450662 / 2 ^ 47"
  proof -
    have "round_half_even ((7205759403792794 / 2 ^ 53 + 50) * 2 ^ 47) = 7149464408450662"
      by (simp add: round_half_even_def Let_def)
    then show ?thesis
      using round_double_scaled[of "7205759403792794 / 2 ^ 53 + 50" 47] by simp
  qed
  have s4: "round_double (7149464408450662 / 2 ^ 47 + 50) = 7093169413108531 / 2 ^ 46"
  proof -
    have "round_half_even ((7149464408450662 / 2 ^ 47 + 50) * 2 ^ 46) = 7093169413108531"
      by (simp add: round_half_even_def Let_def)
    then show ?thesis
      using round_double_scaled[of "7149464408450662 / 2 ^ 47 + 50" 46] by simp
  qed
  have "weighted_sum (2, 0, 5, 1) = fadd (fadd (fadd (fmul 2 (float_lit 0.4)) 0) 50) 50"
    by (simp add: weighted_sum_def float_of_int_def round_double_small)
  also have "fmul 2 (float_lit 0.4) = 7205759403792794 / 2 ^ 53"
    unfolding fmul_def float_lit_04 by (rule s1)
  also have "fadd (7205759403792794 / 2 ^ 53) 0 = 7205759403792794 / 2 ^ 53"
    unfolding fadd_def add_0_right by (rule s2)
  also have "fadd (7205759403792794 / 2 ^ 53) 50 = 7149464408450662 / 2 ^ 47"
    unfolding fadd_def by (rule s3)
  also have "fadd (7149464408450662 / 2 ^ 47) 50 = 7093169413108531 / 2 ^ 46"
    unfolding fadd_def by (rule s4)
  finally show ?thesis .
qed

lemma weighted_sum_b: "weighted_sum (127, 0, 0, 1) = 7093169413108532 / 2 ^ 46"
proof -
  have s1: "round_double (127 * (7205759403792794 / 2 ^ 54)) = 7149464408450663 / 2 ^ 47"
  proof -
    have "round_half_even (127 * (7205759403792794 / 2 ^ 54) * 2 ^ 47) = 7149464408450663"
      by (simp add: round_half_even_def Let_def)
    then show ?thesis
      using round_double_scaled[of "127 * (7205759403792794 / 2 ^ 54)" 47] by simp
  qed
  have s2: "round_double (7149464408450663 / 2 ^ 47) = 7149464408450663 / 2 ^ 47"
  proof -
    have "round_half_even (7149464408450663 / 2 ^ 47 * 2 ^ 47) = 7149464408450663"
      by (simp add: round_half_even_def Let_def)
    then show ?thesis
      using round_double_scaled[of "7149464408450663 / 2 ^ 47" 47] by simp
  qed
  have s4: "round_double (7149464408450663 / 2 ^ 47 + 50) = 7093169413108532 / 2 ^ 46"
  proof -
    have "round_half_even ((7149464408450663 / 2 ^ 47 + 50) * 2 ^ 46) = 7093169413108532"
      by (simp add: round_half_even_def Let_def)
    then show ?thesis
      using round_double_scaled[of "7149464408450663 / 2 ^ 47 + 50" 46] by simp
  qed
  have "weighted_sum (127, 0, 0, 1) = fadd (fadd (fadd (fmul 127 (float_lit 0.4)) 0) 0) 50"
    by (simp add: weighted_sum_def float_of_int_def round_double_small)
  also have "fmul 127 (float_lit 0.4) = 7149464408450663 / 2 ^ 47"
    unfolding fmul_def float_lit_04 by (rule s1)
  also have "fadd (7149464408450663 / 2 ^ 47) 0 = 7149464408450663 / 2 ^ 47"
    unfolding fadd_def add_0_right by (rule s2)
  also have "fadd (7149464408450663 / 2 ^ 47) 0 = 7149464408450663 / 2 ^ 47"
    unfolding fadd_def add_0_right by (rule s2)
  also have "fadd (7149464408450663 / 2 ^ 47) 50 = 7093169413108532 / 2 ^ 46"
    unfolding fadd_def by (rule s4)
  finally show ?thesis .
qed

lemma rounding_posts_totals:
  "first_seen rounding_posts = [''a'', ''b'']"
  "author_totals ''a'' rounding_posts = (2, 0, 5, 1)"
  "author_totals ''b'' rounding_posts = (127, 0, 0, 1)"
  unfolding author_totals_eq by code_simp+

lemma rounding_posts_run:
  "map inf_author (identify_influencers rounding_posts) = [''b'', ''a'']"
  "map inf_influence_score (identify_influencers rounding_posts) =
     [7093169413108532 / 2 ^ 46, 7093169413108531 / 2 ^ 46]"
  using weighted_sum_a weighted_sum_b
  by (simp_all add: identify_influencers_eq rounding_posts_totals entry_score
        author_score spec_influence_score_def weighted_sum_a weighted_sum_b
        make_influencer_fields)

theorem influence_ranking_witness:
  "inf_influence_score (hd (identify_influencers ranked_posts)) = 150 \<and>
   map inf_author
     (filter (\<lambda>x. inf_influence_score x = 50) (identify_influencers ranked_posts)) =
     [''b'', ''a''] \<and>
   sorted (map (\<lambda>x. - inf_influence_score x) (identify_influencers ranked_posts)) \<and>
   distinct (map inf_author (identify_influencers ranked_posts)) \<and>
   map inf_author (identify_influencers rounding_posts) = [''b'', ''a''] \<and>
   set (map inf_influence_score (identify_influencers rounding_posts)) =
     {spec_influence_score ''a'' rounding_posts, spec_influence_score ''b'' rounding_posts} \<and>
   spec_influence_score ''a'' rounding_posts < spec_influence_score ''b'' rounding_posts"
proof -
  have mem: "hd (identify_influencers ranked_posts) \<in> set (identify_influencers ranked_posts)"
    using ranked_posts_run(1) by simp
  have "inf_influence_score (hd (identify_influencers ranked_posts)) =
        spec_influence_score (inf_author (hd (identify_influencers ranked_posts))) ranked_posts"
    using influence_ranking[of ranked_posts 50] mem by blast
  then have top: "inf_influence_score (hd (identify_influencers ranked_posts)) = 150"
    using ranked_posts_run(2,3) by simp
  have r: "spec_influence_score ''a'' rounding_posts = 7093169413108531 / 2 ^ 46"
          "spec_influence_score ''b'' rounding_posts = 7093169413108532 / 2 ^ 46"
    using weighted_sum_a weighted_sum_b
    by (simp_all add: spec_influence_score_def rounding_posts_totals)
  have lt: "spec_influence_score ''a'' rounding_posts < spec_influence_score ''b'' rounding_posts"
    unfolding r by simp
  have sc: "set (map inf_influence_score (identify_influencers rounding_posts)) =
     {spec_influence_score ''a'' rounding_posts, spec_influence_score ''b'' rounding_posts}"
    unfolding r rounding_posts_run(2) by auto
  show ?thesis
    using influence_ranking[of ranked_posts 50] top ranked_posts_run(4) rounding_posts_run(1)
          sc lt
    by simp
qed

text \<open>
  C4 as stated fails in its last part: three authors b, a, c with the same score are
  returned in this order, which is the order of their posts and neither the ascending
  nor the descending order of the author identifiers.
\<close>

theorem influence_ties_counterexample:
  "map inf_author (identify_influencers tie_posts) = [''b'', ''a'', ''c''] \<and>
   map inf_influence_score (identify_influencers tie_posts) = [50, 50, 50] \<and>
   \<not> sorted (map inf_author (identify_influencers tie_posts)) \<and>
   \<not> sorted (rev (map inf_author (identify_influencers tie_posts)))"
proof -
  have "\<not> sorted [''b'', ''a'', ''c'']" "\<not> sorted (rev [''b'', ''a'', ''c''])"
    by code_simp+
  then show ?thesis using tie_posts_run by simp
qed

end
